theory Spec2Isabelle
  imports Complex_Main
begin

section \<open>The trajectory controller of \<^verbatim>\<open>trajectory_controller.c\<close>\<close>

text \<open>
  The controller is one C function over \<^verbatim>\<open>double\<close> values, with four small helpers.
  The embedding reads \<^verbatim>\<open>double\<close> as \<^typ>\<open>real\<close>: every arithmetic operation is exact,
  \<^verbatim>\<open>M_PI\<close> is \<^term>\<open>pi\<close>, and the functions of \<^verbatim>\<open>math.h\<close> are their real counterparts
  (\<^verbatim>\<open>pow(a,2.0)\<close> is \<open>a\<^sup>2\<close>, \<^verbatim>\<open>fabs\<close> is \<open>abs\<close>, \<^verbatim>\<open>atan\<close> is \<open>arctan\<close>).
  Rounding and overflow are outside this reading. The inputs of a call are finite, and
  an input that is zero is the positive zero.

  Three divisions of the function can meet a divisor that is zero, where IEEE
  arithmetic gives an infinity or NaN and the C code carries on. The model follows the
  code through each of them:
  \<^item> \<^verbatim>\<open>alpha_star\<close> (line 144): the quotient is \<open>\<plusminus>\<infinity>\<close> and its \<^verbatim>\<open>atan\<close> is \<open>\<plusminus> pi / 2\<close>, or
    the quotient is NaN and the comparison of line 152 is false;
  \<^item> \<^verbatim>\<open>Ts_psi\<close> (line 174) for \<open>v = 0\<close>: the distance is positive after the search, so
    \<^verbatim>\<open>Ts_psi\<close> is an infinity and \<^verbatim>\<open>dpsiref\<close> is a zero;
  \<^item> the roll transform (line 210) for \<open>lr + lf = 0\<close>: the result is \<open>\<plusminus> pi / 2\<close> or NaN.
  Every other value of a call is finite. A value that can be NaN has an option type,
  with \<open>None\<close> for NaN. Where the C code reads an array element past its end (undefined
  behaviour), the model returns \<open>Inl OutOfBounds\<close>.
\<close>

datatype error = OutOfBounds

subsection \<open>Helpers (lines 33 to 77)\<close>

text \<open>\<^verbatim>\<open>double sign(double value)\<close>, lines 33 to 47.\<close>

definition sign :: "real \<Rightarrow> real" where
  "sign val = (if val > 0 then 1 else if val < 0 then - 1 else 0)"

text \<open>\<^verbatim>\<open>double min(double a, double b)\<close>, lines 50 to 60.\<close>

definition min_d :: "real \<Rightarrow> real \<Rightarrow> real" where
  "min_d a b = (if a < b then a else b)"

text \<open>\<^verbatim>\<open>double mod(double a, double b)\<close>, lines 63 to 68: the remainder of the floored quotient.\<close>

definition mod_d :: "real \<Rightarrow> real \<Rightarrow> real" where
  "mod_d a b =
     (let quotient = a / b;
          quotient_floor = real_of_int \<lfloor>quotient\<rfloor>;
          remainder = a - quotient_floor * b
      in remainder)"

text \<open>
  \<^verbatim>\<open>fmod\<close> of the C library: \<open>x - n * y\<close> where \<open>n\<close> is the quotient \<open>x / y\<close> with its
  fractional part cut off (rounded towards zero), so the result has the sign of \<open>x\<close>.
\<close>

definition trunc_d :: "real \<Rightarrow> int" where
  "trunc_d q = (if 0 \<le> q then \<lfloor>q\<rfloor> else \<lceil>q\<rceil>)"

definition fmod :: "real \<Rightarrow> real \<Rightarrow> real" where
  "fmod x y = x - real_of_int (trunc_d (x / y)) * y"

text \<open>
  \<^verbatim>\<open>double wrap_angle(double angle)\<close>, lines 71 to 77. In exact arithmetic the result is
  below \<open>pi\<close>; in \<^verbatim>\<open>double\<close> the sum of line 74 can round to \<^verbatim>\<open>2*M_PI\<close> and the result to
  \<^verbatim>\<open>M_PI\<close>, so nothing below relies on the upper end being excluded.
\<close>

definition wrap_angle :: "real \<Rightarrow> real" where
  "wrap_angle angle =
     (let wrapped_angle = fmod (angle + pi) (2 * pi);
          wrapped_angle = (if wrapped_angle < 0 then wrapped_angle + 2 * pi else wrapped_angle)
      in wrapped_angle - pi)"

subsection \<open>Unpacking the trajectory buffer (lines 94 to 106)\<close>

text \<open>
  \<^verbatim>\<open>int size_traj_loc = sizeof(traj_loc) / 3;\<close> where \<^verbatim>\<open>traj_loc\<close> is a parameter of type
  \<^verbatim>\<open>double *\<close>: the operand is a pointer, so \<^verbatim>\<open>sizeof\<close> is the size of a pointer on the
  target. That size is a constant of the platform and not part of the file, so it is a
  parameter here (8 on an LP64 target, 4 on a 32-bit one).
\<close>

definition size_traj_loc :: "nat \<Rightarrow> nat" where
  "size_traj_loc sizeof_ptr = sizeof_ptr div 3"

text \<open>
  The \<^verbatim>\<open>for\<close> loop of lines 100 to 106. The caller's buffer is a list with the length
  the caller allocated; the three local arrays have \<open>size_traj_loc\<close> elements and are
  filled from index 0 upwards (\<^verbatim>\<open>counter\<close> always equals \<^verbatim>\<open>i\<close>), which the model
  writes as appending.
\<close>

function unpack_loop ::
  "nat \<Rightarrow> real list \<Rightarrow> nat \<Rightarrow> real list \<times> real list \<times> real list
     \<Rightarrow> error + real list \<times> real list \<times> real list" where
  "unpack_loop n traj_loc i (X_loc, Y_loc, Psi_loc) =
     (if i < n then
        (if i + 2 * n < length traj_loc then
           unpack_loop n traj_loc (i + 1)
             (X_loc @ [traj_loc ! i], Y_loc @ [traj_loc ! (i + n)],
              Psi_loc @ [traj_loc ! (i + 2 * n)])
         else Inl OutOfBounds)
      else Inr (X_loc, Y_loc, Psi_loc))"
  by pat_completeness auto
termination
  by (relation "measure (\<lambda>(n, traj_loc, i, arrays). n - i)") auto

declare unpack_loop.simps [simp del]

definition unpack_traj :: "nat \<Rightarrow> real list \<Rightarrow> error + real list \<times> real list \<times> real list" where
  "unpack_traj n traj_loc = unpack_loop n traj_loc 0 ([], [], [])"

subsection \<open>Closest-point search (lines 109 to 117)\<close>

text \<open>
  The \<^verbatim>\<open>while\<close> loop, started at \<^verbatim>\<open>closestpoint_idx = 1\<close>. The left operand of \<^verbatim>\<open>&&\<close>
  is evaluated first: it reads elements \<^verbatim>\<open>closestpoint_idx\<close> and \<^verbatim>\<open>closestpoint_idx+1\<close>
  of both arrays before the bound is tested.
\<close>

function closestpoint_search ::
  "nat \<Rightarrow> real list \<Rightarrow> real list \<Rightarrow> real \<Rightarrow> real \<Rightarrow> nat \<Rightarrow> error + nat" where
  "closestpoint_search n X_loc Y_loc X_est Y_est idx =
     (if idx + 1 < length X_loc \<and> idx + 1 < length Y_loc then
        (if (X_loc ! idx - X_est)\<^sup>2 + (Y_loc ! idx - Y_est)\<^sup>2 \<ge>
              (X_loc ! (idx + 1) - X_est)\<^sup>2 + (Y_loc ! (idx + 1) - Y_est)\<^sup>2
            \<and> int idx \<le> int n - 1
         then closestpoint_search n X_loc Y_loc X_est Y_est (idx + 1)
         else Inr idx)
      else Inl OutOfBounds)"
  by pat_completeness auto
termination
  by (relation "measure (\<lambda>(n, X_loc, Y_loc, X_est, Y_est, idx). length X_loc - idx)") auto

declare closestpoint_search.simps [simp del]

subsection \<open>Heading-rate reference (lines 128 to 138)\<close>

definition limit_D_psiref :: "real \<Rightarrow> real" where
  "limit_D_psiref D0 =
     (let D1 = (if D0 \<ge> pi then mod_d D0 (- 2 * pi) else D0);
          D2 = (if D1 \<le> - pi then mod_d D1 (2 * pi) else D1)
      in D2)"

subsection \<open>Heading index (lines 142 to 155)\<close>

text \<open>
  \<^verbatim>\<open>atan(a / b)\<close> in IEEE arithmetic. The divisor of line 144 is a difference of two
  finite values, which is the positive zero when they are equal. A quotient with that
  divisor is \<open>+\<infinity>\<close> for a positive dividend and \<open>-\<infinity>\<close> for a negative one, with \<^verbatim>\<open>atan\<close>
  \<open>pi / 2\<close> and \<open>- pi / 2\<close>; for a zero dividend it is NaN.
\<close>

definition atan_quotient :: "real \<Rightarrow> real \<Rightarrow> real option" where
  "atan_quotient a b =
     (if b \<noteq> 0 then Some (arctan (a / b))
      else if a > 0 then Some (pi / 2)
      else if a < 0 then Some (- (pi / 2))
      else None)"

text \<open>
  Lines 142 to 155 for a search index \<open>idx\<close>. When \<^verbatim>\<open>alpha_star\<close> is NaN, so is
  \<^verbatim>\<open>projected_dist\<close>, the test \<^verbatim>\<open>projected_dist >= compared_dist\<close> is false and the
  heading index stays \<open>idx\<close>.
\<close>

definition select_heading_idx ::
  "real list \<Rightarrow> real list \<Rightarrow> real list \<Rightarrow> real \<Rightarrow> real \<Rightarrow> nat \<Rightarrow> error + nat" where
  "select_heading_idx X_loc Y_loc Psi_loc X_est Y_est idx =
     (if \<not> (1 \<le> idx \<and> idx < length X_loc \<and> idx < length Y_loc \<and> idx < length Psi_loc)
      then Inl OutOfBounds
      else
        let dis_true_previous =
              sqrt ((X_loc ! (idx - 1) - X_est)\<^sup>2 + (Y_loc ! (idx - 1) - Y_est)\<^sup>2);
            compared_dist =
              sqrt ((X_loc ! idx - X_loc ! (idx - 1))\<^sup>2 + (Y_loc ! idx - Y_loc ! (idx - 1))\<^sup>2)
        in case atan_quotient (Y_loc ! (idx - 1) - Y_est) (X_loc ! (idx - 1) - X_est) of
             None \<Rightarrow> Inr idx
           | Some alpha_star \<Rightarrow>
               let alpha_projected_dist = alpha_star - Psi_loc ! idx;
                   projected_dist = \<bar>dis_true_previous * cos alpha_projected_dist\<bar>
               in Inr (if projected_dist \<ge> compared_dist then idx + 1 else idx))"

subsection \<open>Errors (lines 124, 125, 158, 159 and 167)\<close>

definition lateral_error ::
  "real list \<Rightarrow> real list \<Rightarrow> real list \<Rightarrow> real \<Rightarrow> real \<Rightarrow> nat \<Rightarrow> nat \<Rightarrow> real" where
  "lateral_error X_loc Y_loc Psi_loc X_est Y_est idx heading_idx =
     (let dx = X_est - X_loc ! idx;
          dy = Y_est - Y_loc ! idx
      in dy * cos (Psi_loc ! heading_idx) - dx * sin (Psi_loc ! heading_idx))"

definition heading_error :: "real list \<Rightarrow> real \<Rightarrow> nat \<Rightarrow> real" where
  "heading_error Psi_loc Psi_est heading_idx =
     (let e2 = Psi_est - Psi_loc ! heading_idx in wrap_angle e2)"

subsection \<open>Heading-rate input (lines 162, 163 and 170 to 177)\<close>

text \<open>
  \<^verbatim>\<open>Ts_psi = dis / v\<close> and \<^verbatim>\<open>dpsiref = D_psiref / Ts_psi\<close>. The search stops only where the
  next waypoint is strictly farther than the current one, so the two differ and \<open>dis\<close>
  is positive (lemma \<open>segment_positive_after_search\<close> below). For \<open>v = 0\<close> the quotient
  \<open>dis / v\<close> is an infinity, and a finite \<open>D_psiref\<close> divided by it is a zero.
\<close>

definition sample_dpsiref :: "real list \<Rightarrow> real list \<Rightarrow> real \<Rightarrow> nat \<Rightarrow> real \<Rightarrow> real" where
  "sample_dpsiref X_loc Y_loc v idx D_psiref =
     (let ref_X = X_loc ! idx;
          ref_Y = Y_loc ! idx;
          dX = X_loc ! (idx + 1) - ref_X;
          dY = Y_loc ! (idx + 1) - ref_Y;
          dis = sqrt (dX\<^sup>2 + dY\<^sup>2)
      in if v = 0 then 0 else D_psiref / (dis / v))"

subsection \<open>Steering synthesis (lines 184 to 210)\<close>

text \<open>Line 184.\<close>

definition steer_error :: "real \<Rightarrow> real \<Rightarrow> real \<Rightarrow> real \<Rightarrow> real \<Rightarrow> real" where
  "steer_error k1 k2 e1_max e1 e2 = - k1 * sign e1 * min_d \<bar>e1\<bar> e1_max - k2 * e2"

text \<open>
  Lines 187 to 193. The \<^verbatim>\<open>static double x\<close> keeps its value between calls; the step takes
  the value \<open>x\<close> it has at entry and returns \<^verbatim>\<open>delta_ref_psi\<close> together with the value
  stored back into it.
\<close>

definition filter_step ::
  "real \<Rightarrow> real \<Rightarrow> real \<Rightarrow> real \<Rightarrow> real \<Rightarrow> real \<Rightarrow> real \<times> real" where
  "filter_step Ad_t Bd_t C_t D_t dpsiref x =
     (let x_dot = Ad_t * x + Bd_t * dpsiref;
          delta_ref_psi = C_t * x + D_t * dpsiref;
          x = x_dot
      in (delta_ref_psi, x))"

text \<open>Lines 199 to 206: two independent tests, in this order.\<close>

definition limit_delta_ref :: "real \<Rightarrow> real" where
  "limit_delta_ref d0 =
     (let d1 = (if d0 \<ge> pi / 4 then pi / 4 else d0);
          d2 = (if d1 \<le> - pi / 4 then - pi / 4 else d1)
      in d2)"

text \<open>\<^verbatim>\<open>#define g 9.81\<close>\<close>

definition g :: real where
  "g = 981 / 100"

text \<open>
  Lines 209 and 210. For \<open>lr + lf = 0\<close> the quotient \<^verbatim>\<open>pow(v,2.0)/(lr+lf)\<close> is \<open>+\<infinity>\<close> when
  \<open>v\<close> is not zero and NaN when it is. Its product with \<^verbatim>\<open>tan(eff_delta_ref)\<close> is then NaN
  when either factor is NaN or the tangent is zero, and an infinity with the sign of the
  tangent otherwise; dividing by \<open>g\<close> changes nothing, \<^verbatim>\<open>atan\<close> of \<open>\<plusminus>\<infinity>\<close> is \<open>\<plusminus> pi / 2\<close>, and
  the factor \<open>- 1\<close> flips the sign.
\<close>

definition roll_transform :: "real \<Rightarrow> real \<Rightarrow> real \<Rightarrow> real \<Rightarrow> real \<Rightarrow> real option" where
  "roll_transform delta_ref lambda v lr lf =
     (let eff_delta_ref = delta_ref * sin lambda
      in if lr + lf \<noteq> 0
         then Some (- 1 * arctan (tan eff_delta_ref * (v\<^sup>2 / (lr + lf)) / g))
         else if v = 0 \<or> tan eff_delta_ref = 0 then None
         else if tan eff_delta_ref > 0 then Some (- 1 * (pi / 2))
         else Some (- 1 * (- (pi / 2))))"

subsection \<open>The controller (lines 79 to 212)\<close>

text \<open>
  The local variables of one call, as they stand when the function returns.
  \<open>closestpoint_idx\<close> is the value the search left (before line 180 decrements it),
  \<open>delta_ref_sum\<close> the value of \<^verbatim>\<open>delta_ref\<close> at line 196 and \<open>delta_ref\<close> its value
  after line 206; \<open>x_static\<close> is the value line 193 stores in the \<^verbatim>\<open>static double x\<close>.
  The outputs of the call are \<open>roll_ref\<close> (\<open>None\<close> for NaN) and \<open>closestpoint_idx_out\<close>.
\<close>

record ctrl_locals =
  closestpoint_idx :: nat
  closestpoint_heading_idx :: nat
  D_psiref :: real
  e1 :: real
  e2 :: real
  dpsiref :: real
  closestpoint_idx_out :: int
  delta_ref_error :: real
  delta_ref_psi :: real
  x_static :: real
  delta_ref_sum :: real
  delta_ref :: real
  roll_ref :: "real option"

text \<open>
  Lines 108 to 210 as a function of the three local arrays and the value \<open>x\<close> of the
  static variable at entry. \<open>n\<close> is the value of \<^verbatim>\<open>size_traj_loc\<close>, the declared length of
  the three arrays; the properties below are stated for \<open>n = length X_loc\<close>.
\<close>

definition controller_body ::
  "nat \<Rightarrow> real list \<Rightarrow> real list \<Rightarrow> real list \<Rightarrow> real \<Rightarrow> real \<Rightarrow> real \<Rightarrow> real
     \<Rightarrow> real \<Rightarrow> real \<Rightarrow> real \<Rightarrow> real \<Rightarrow> real \<Rightarrow> real
     \<Rightarrow> real \<Rightarrow> real \<Rightarrow> real \<Rightarrow> real \<Rightarrow> real \<Rightarrow> error + ctrl_locals" where
  "controller_body n X_loc Y_loc Psi_loc X_est Y_est Psi_est v lr lf lambda k1 k2 e1_max
       Ad_t Bd_t C_t D_t x =
     (case closestpoint_search n X_loc Y_loc X_est Y_est 1 of
        Inl err \<Rightarrow> Inl err
      | Inr idx \<Rightarrow>
          if \<not> idx + 1 < length Psi_loc then Inl OutOfBounds
          else
            case select_heading_idx X_loc Y_loc Psi_loc X_est Y_est idx of
              Inl err \<Rightarrow> Inl err
            | Inr heading_idx \<Rightarrow>
                let D_psiref = limit_D_psiref (Psi_loc ! (idx + 1) - Psi_loc ! idx);
                    e1 = lateral_error X_loc Y_loc Psi_loc X_est Y_est idx heading_idx;
                    e2 = heading_error Psi_loc Psi_est heading_idx;
                    dpsiref = sample_dpsiref X_loc Y_loc v idx D_psiref;
                    idx_out = int idx - 1;
                    delta_ref_error = steer_error k1 k2 e1_max e1 e2;
                    step = filter_step Ad_t Bd_t C_t D_t dpsiref x;
                    delta_ref_psi = fst step;
                    delta_ref_sum = delta_ref_psi + delta_ref_error;
                    delta_ref = limit_delta_ref delta_ref_sum
                in Inr \<lparr>closestpoint_idx = idx,
                         closestpoint_heading_idx = heading_idx,
                         D_psiref = D_psiref,
                         e1 = e1,
                         e2 = e2,
                         dpsiref = dpsiref,
                         closestpoint_idx_out = idx_out,
                         delta_ref_error = delta_ref_error,
                         delta_ref_psi = delta_ref_psi,
                         x_static = snd step,
                         delta_ref_sum = delta_ref_sum,
                         delta_ref = delta_ref,
                         roll_ref = roll_transform delta_ref lambda v lr lf\<rparr>)"

text \<open>
  The whole function: the parameters are unpacked (lines 84 to 91), the buffer is
  unpacked into arrays of \<open>size_traj_loc\<close> elements, and the rest runs on those arrays.
\<close>

definition trajectory_controller ::
  "nat \<Rightarrow> real list \<Rightarrow> real \<Rightarrow> real \<Rightarrow> real \<Rightarrow> real \<Rightarrow> real list \<Rightarrow> real list
     \<Rightarrow> real \<Rightarrow> real \<Rightarrow> real \<Rightarrow> real \<Rightarrow> real \<Rightarrow> error + ctrl_locals" where
  "trajectory_controller sizeof_ptr traj_loc X_est Y_est Psi_est v bike_params traj_params
       Ad_t Bd_t C_t D_t x =
     (if length bike_params < 3 \<or> length traj_params < 3 then Inl OutOfBounds
      else
        let lr = bike_params ! 0;
            lf = bike_params ! 1;
            lambda = bike_params ! 2;
            k1 = traj_params ! 0;
            k2 = traj_params ! 1;
            e1_max = traj_params ! 2;
            n = size_traj_loc sizeof_ptr
        in case unpack_traj n traj_loc of
             Inl err \<Rightarrow> Inl err
           | Inr (X_loc, Y_loc, Psi_loc) \<Rightarrow>
               controller_body n X_loc Y_loc Psi_loc X_est Y_est Psi_est v lr lf lambda
                 k1 k2 e1_max Ad_t Bd_t C_t D_t x)"

subsection \<open>The static variable across calls\<close>

text \<open>\<^verbatim>\<open>static double x = 0;\<close>: the value the first call reads.\<close>

definition x_init :: real where
  "x_init = 0"

text \<open>
  A sequence of calls. Each call is the function applied to its arguments and still
  waiting for the value of the static variable; it is run on the value the call before
  it stored. After a call with undefined behaviour nothing more is said.
\<close>

fun controller_calls ::
  "real \<Rightarrow> (real \<Rightarrow> error + ctrl_locals) list \<Rightarrow> (error + ctrl_locals) list" where
  "controller_calls x [] = []"
| "controller_calls x (call # calls) =
     (case call x of
        Inl err \<Rightarrow> [Inl err]
      | Inr L \<Rightarrow> Inr L # controller_calls (x_static L) calls)"

definition controller_run ::
  "(real \<Rightarrow> error + ctrl_locals) list \<Rightarrow> (error + ctrl_locals) list" where
  "controller_run calls = controller_calls x_init calls"

subsection \<open>The spec's wording, for comparison\<close>

text \<open>
  The spec describes the limiting of \<open>D_psiref\<close> as one conditional correction by
  \<open>2 * pi\<close>: subtract when the value is at least \<open>pi\<close>, add when it is at most \<open>- pi\<close>.
  This definition follows those words; \<open>limit_D_psiref\<close> above follows the code.
\<close>

definition single_correction :: "real \<Rightarrow> real" where
  "single_correction D = (if D \<ge> pi then D - 2 * pi else if D \<le> - pi then D + 2 * pi else D)"

text \<open>
  The spec describes the heading index as chosen by comparing the distance from the
  previous waypoint, projected with \<open>cos (alpha_star - Psi[idx])\<close>, to the segment length.
  This definition follows those words (the projection is signed); \<open>select_heading_idx\<close>
  above follows the code, which compares the absolute value.
\<close>

definition heading_idx_claimed ::
  "real list \<Rightarrow> real list \<Rightarrow> real list \<Rightarrow> real \<Rightarrow> real \<Rightarrow> nat \<Rightarrow> nat" where
  "heading_idx_claimed X_loc Y_loc Psi_loc X_est Y_est idx =
     (let dist_previous =
            sqrt ((X_loc ! (idx - 1) - X_est)\<^sup>2 + (Y_loc ! (idx - 1) - Y_est)\<^sup>2);
          alpha_star = arctan ((Y_loc ! (idx - 1) - Y_est) / (X_loc ! (idx - 1) - X_est));
          projected = dist_previous * cos (alpha_star - Psi_loc ! idx);
          segment =
            sqrt ((X_loc ! idx - X_loc ! (idx - 1))\<^sup>2 + (Y_loc ! idx - Y_loc ! (idx - 1))\<^sup>2)
      in if projected \<ge> segment then idx + 1 else idx)"

section \<open>Properties\<close>

subsection \<open>The search\<close>

lemma closestpoint_search_Inr_bounds:
  "closestpoint_search n X_loc Y_loc X_est Y_est i = Inr idx \<Longrightarrow>
     i \<le> idx \<and> idx + 1 < length X_loc \<and> idx + 1 < length Y_loc"
proof (induction n X_loc Y_loc X_est Y_est i rule: closestpoint_search.induct)
  case (1 n X_loc Y_loc X_est Y_est i)
  show ?case
  proof (cases "i + 1 < length X_loc \<and> i + 1 < length Y_loc")
    case False
    then show ?thesis using "1.prems" by (subst (asm) closestpoint_search.simps) auto
  next
    case inr: True
    show ?thesis
    proof (cases "(X_loc ! i - X_est)\<^sup>2 + (Y_loc ! i - Y_est)\<^sup>2 \<ge>
              (X_loc ! (i + 1) - X_est)\<^sup>2 + (Y_loc ! (i + 1) - Y_est)\<^sup>2
            \<and> int i \<le> int n - 1")
      case True
      then have "closestpoint_search n X_loc Y_loc X_est Y_est (i + 1) = Inr idx"
        using "1.prems" inr by (subst (asm) closestpoint_search.simps) simp
      then show ?thesis using "1.IH" [OF inr True] by simp
    next
      case False
      then have "idx = i"
        using "1.prems" inr by (subst (asm) closestpoint_search.simps) auto
      then show ?thesis using inr by simp
    qed
  qed
qed

lemma closestpoint_search_stops_strict:
  "closestpoint_search (length X_loc) X_loc Y_loc X_est Y_est i = Inr idx \<Longrightarrow>
     (X_loc ! idx - X_est)\<^sup>2 + (Y_loc ! idx - Y_est)\<^sup>2
       < (X_loc ! (idx + 1) - X_est)\<^sup>2 + (Y_loc ! (idx + 1) - Y_est)\<^sup>2"
proof (induction "length X_loc" X_loc Y_loc X_est Y_est i rule: closestpoint_search.induct)
  case (1 X_loc Y_loc X_est Y_est i)
  show ?case
  proof (cases "i + 1 < length X_loc \<and> i + 1 < length Y_loc")
    case False
    then show ?thesis using "1.prems" by (subst (asm) closestpoint_search.simps) auto
  next
    case inr: True
    then have bound: "int i \<le> int (length X_loc) - 1" by simp
    show ?thesis
    proof (cases "(X_loc ! i - X_est)\<^sup>2 + (Y_loc ! i - Y_est)\<^sup>2 \<ge>
              (X_loc ! (i + 1) - X_est)\<^sup>2 + (Y_loc ! (i + 1) - Y_est)\<^sup>2")
      case True
      then have "closestpoint_search (length X_loc) X_loc Y_loc X_est Y_est (i + 1) = Inr idx"
        using "1.prems" inr bound by (subst (asm) closestpoint_search.simps) simp
      then show ?thesis using "1.hyps" inr True bound by simp
    next
      case False
      then have "idx = i"
        using "1.prems" inr by (subst (asm) closestpoint_search.simps) auto
      then show ?thesis using False by simp
    qed
  qed
qed

lemma segment_positive_after_search:
  assumes "closestpoint_search (length X_loc) X_loc Y_loc X_est Y_est i = Inr idx"
  shows "0 < sqrt ((X_loc ! (idx + 1) - X_loc ! idx)\<^sup>2 + (Y_loc ! (idx + 1) - Y_loc ! idx)\<^sup>2)"
proof -
  have "X_loc ! (idx + 1) \<noteq> X_loc ! idx \<or> Y_loc ! (idx + 1) \<noteq> Y_loc ! idx"
    using closestpoint_search_stops_strict [OF assms] by auto
  then have "0 < (X_loc ! (idx + 1) - X_loc ! idx)\<^sup>2 + (Y_loc ! (idx + 1) - Y_loc ! idx)\<^sup>2"
    by (auto simp: sum_power2_gt_zero_iff)
  then show ?thesis by simp
qed

subsection \<open>Unfolding one call\<close>

lemma select_heading_idx_in_range:
  assumes "1 \<le> idx" and "idx < length X_loc" and "idx < length Y_loc" and "idx < length Psi_loc"
  shows "\<exists>h. select_heading_idx X_loc Y_loc Psi_loc X_est Y_est idx = Inr h \<and>
             (h = idx \<or> h = idx + 1)"
  using assms unfolding select_heading_idx_def Let_def
  by (cases "atan_quotient (Y_loc ! (idx - 1) - Y_est) (X_loc ! (idx - 1) - X_est)") auto

lemma controller_body_eval:
  assumes "closestpoint_search n X_loc Y_loc X_est Y_est 1 = Inr idx"
    and "idx + 1 < length Psi_loc"
    and "select_heading_idx X_loc Y_loc Psi_loc X_est Y_est idx = Inr h"
  shows "controller_body n X_loc Y_loc Psi_loc X_est Y_est Psi_est v lr lf lambda k1 k2 e1_max
           Ad_t Bd_t C_t D_t x =
         (let D = limit_D_psiref (Psi_loc ! (idx + 1) - Psi_loc ! idx);
              a = lateral_error X_loc Y_loc Psi_loc X_est Y_est idx h;
              b = heading_error Psi_loc Psi_est h;
              u = sample_dpsiref X_loc Y_loc v idx D;
              s = C_t * x + D_t * u + steer_error k1 k2 e1_max a b
          in Inr \<lparr>closestpoint_idx = idx, closestpoint_heading_idx = h, D_psiref = D,
                  e1 = a, e2 = b, dpsiref = u, closestpoint_idx_out = int idx - 1,
                  delta_ref_error = steer_error k1 k2 e1_max a b,
                  delta_ref_psi = C_t * x + D_t * u,
                  x_static = Ad_t * x + Bd_t * u,
                  delta_ref_sum = s,
                  delta_ref = limit_delta_ref s,
                  roll_ref = roll_transform (limit_delta_ref s) lambda v lr lf\<rparr>)"
  using assms by (simp add: controller_body_def Let_def filter_step_def)

lemma controller_body_fails:
  shows "closestpoint_search n X_loc Y_loc X_est Y_est 1 = Inl err \<Longrightarrow>
         controller_body n X_loc Y_loc Psi_loc X_est Y_est Psi_est v lr lf lambda k1 k2 e1_max
           Ad_t Bd_t C_t D_t x = Inl err"
    and "closestpoint_search n X_loc Y_loc X_est Y_est 1 = Inr idx \<Longrightarrow>
         \<not> idx + 1 < length Psi_loc \<Longrightarrow>
         controller_body n X_loc Y_loc Psi_loc X_est Y_est Psi_est v lr lf lambda k1 k2 e1_max
           Ad_t Bd_t C_t D_t x = Inl OutOfBounds"
  by (auto simp: controller_body_def Let_def)

lemma controller_body_completes:
  assumes "closestpoint_search n X_loc Y_loc X_est Y_est 1 = Inr idx"
    and "idx + 1 < length Psi_loc"
  obtains h where "select_heading_idx X_loc Y_loc Psi_loc X_est Y_est idx = Inr h"
    and "h = idx \<or> h = idx + 1"
proof -
  have "1 \<le> idx \<and> idx + 1 < length X_loc \<and> idx + 1 < length Y_loc"
    using closestpoint_search_Inr_bounds [OF assms(1)] .
  then have "\<exists>h. select_heading_idx X_loc Y_loc Psi_loc X_est Y_est idx = Inr h \<and>
             (h = idx \<or> h = idx + 1)"
    using assms(2) by (intro select_heading_idx_in_range) simp_all
  then show ?thesis using that by blast
qed

lemma controller_body_Inr:
  assumes "controller_body n X_loc Y_loc Psi_loc X_est Y_est Psi_est v lr lf lambda k1 k2 e1_max
             Ad_t Bd_t C_t D_t x = Inr L"
  shows "closestpoint_search n X_loc Y_loc X_est Y_est 1 = Inr (closestpoint_idx L)"
    and "closestpoint_idx L + 1 < length Psi_loc"
    and "select_heading_idx X_loc Y_loc Psi_loc X_est Y_est (closestpoint_idx L)
           = Inr (closestpoint_heading_idx L)"
    and "D_psiref L
           = limit_D_psiref (Psi_loc ! (closestpoint_idx L + 1) - Psi_loc ! closestpoint_idx L)"
    and "e1 L = lateral_error X_loc Y_loc Psi_loc X_est Y_est (closestpoint_idx L)
                  (closestpoint_heading_idx L)"
    and "e2 L = heading_error Psi_loc Psi_est (closestpoint_heading_idx L)"
    and "dpsiref L = sample_dpsiref X_loc Y_loc v (closestpoint_idx L) (D_psiref L)"
    and "closestpoint_idx_out L = int (closestpoint_idx L) - 1"
    and "delta_ref_error L = steer_error k1 k2 e1_max (e1 L) (e2 L)"
    and "delta_ref_psi L = C_t * x + D_t * dpsiref L"
    and "x_static L = Ad_t * x + Bd_t * dpsiref L"
    and "delta_ref_sum L = delta_ref_psi L + delta_ref_error L"
    and "delta_ref L = limit_delta_ref (delta_ref_sum L)"
    and "roll_ref L = roll_transform (delta_ref L) lambda v lr lf"
proof -
  let ?body = "controller_body n X_loc Y_loc Psi_loc X_est Y_est Psi_est v lr lf lambda k1 k2
                 e1_max Ad_t Bd_t C_t D_t x"
  obtain idx where s: "closestpoint_search n X_loc Y_loc X_est Y_est 1 = Inr idx"
  proof (cases "closestpoint_search n X_loc Y_loc X_est Y_est 1")
    case (Inl err)
    then have "?body = Inl err" by (rule controller_body_fails(1))
    then show ?thesis using assms by simp
  next
    case (Inr idx)
    then show ?thesis by (rule that)
  qed
  have p: "idx + 1 < length Psi_loc"
  proof (rule ccontr)
    assume "\<not> idx + 1 < length Psi_loc"
    then have "?body = Inl OutOfBounds" by (rule controller_body_fails(2) [OF s])
    then show False using assms by simp
  qed
  obtain h where hd: "select_heading_idx X_loc Y_loc Psi_loc X_est Y_est idx = Inr h"
    using controller_body_completes [OF s p] by blast
  note ev = controller_body_eval [OF s p hd, of Psi_est v lr lf lambda k1 k2 e1_max
      Ad_t Bd_t C_t D_t x]
  from ev assms have L: "L =
         (let D = limit_D_psiref (Psi_loc ! (idx + 1) - Psi_loc ! idx);
              a = lateral_error X_loc Y_loc Psi_loc X_est Y_est idx h;
              b = heading_error Psi_loc Psi_est h;
              u = sample_dpsiref X_loc Y_loc v idx D;
              s = C_t * x + D_t * u + steer_error k1 k2 e1_max a b
          in \<lparr>closestpoint_idx = idx, closestpoint_heading_idx = h, D_psiref = D,
                  e1 = a, e2 = b, dpsiref = u, closestpoint_idx_out = int idx - 1,
                  delta_ref_error = steer_error k1 k2 e1_max a b,
                  delta_ref_psi = C_t * x + D_t * u,
                  x_static = Ad_t * x + Bd_t * u,
                  delta_ref_sum = s,
                  delta_ref = limit_delta_ref s,
                  roll_ref = roll_transform (limit_delta_ref s) lambda v lr lf\<rparr>)"
    by (simp add: Let_def)
  show "closestpoint_search n X_loc Y_loc X_est Y_est 1 = Inr (closestpoint_idx L)"
    using s by (simp add: L Let_def)
  show "closestpoint_idx L + 1 < length Psi_loc" using p by (simp add: L Let_def)
  show "select_heading_idx X_loc Y_loc Psi_loc X_est Y_est (closestpoint_idx L)
           = Inr (closestpoint_heading_idx L)"
    using hd by (simp add: L Let_def)
  show "D_psiref L
           = limit_D_psiref (Psi_loc ! (closestpoint_idx L + 1) - Psi_loc ! closestpoint_idx L)"
    by (simp add: L Let_def)
  show "e1 L = lateral_error X_loc Y_loc Psi_loc X_est Y_est (closestpoint_idx L)
                  (closestpoint_heading_idx L)"
    by (simp add: L Let_def)
  show "e2 L = heading_error Psi_loc Psi_est (closestpoint_heading_idx L)"
    by (simp add: L Let_def)
  show "dpsiref L = sample_dpsiref X_loc Y_loc v (closestpoint_idx L) (D_psiref L)"
    by (simp add: L Let_def)
  show "closestpoint_idx_out L = int (closestpoint_idx L) - 1"
    by (simp add: L Let_def)
  show "delta_ref_error L = steer_error k1 k2 e1_max (e1 L) (e2 L)"
    by (simp add: L Let_def)
  show "delta_ref_psi L = C_t * x + D_t * dpsiref L"
    by (simp add: L Let_def)
  show "x_static L = Ad_t * x + Bd_t * dpsiref L"
    by (simp add: L Let_def)
  show "delta_ref_sum L = delta_ref_psi L + delta_ref_error L"
    by (simp add: L Let_def)
  show "delta_ref L = limit_delta_ref (delta_ref_sum L)"
    by (simp add: L Let_def)
  show "roll_ref L = roll_transform (delta_ref L) lambda v lr lf"
    by (simp add: L Let_def)
qed

subsection \<open>Angle wrap\<close>

lemma fmod_two_pi_normalised:
  fixes x :: real
  defines "w \<equiv> fmod x (2 * pi)"
  shows "(if w < 0 then w + 2 * pi else w) = x - 2 * pi * real_of_int \<lfloor>x / (2 * pi)\<rfloor>"
proof -
  define q where "q = x / (2 * pi)"
  have tp: "0 < 2 * pi" by simp
  have xq: "x = q * (2 * pi)" by (simp add: q_def)
  have lo: "real_of_int \<lfloor>q\<rfloor> \<le> q" by (rule of_int_floor_le)
  have w_eq: "w = (q - real_of_int (trunc_d q)) * (2 * pi)"
    by (simp add: w_def fmod_def q_def [symmetric] xq algebra_simps)
  have goal_eq: "x - 2 * pi * real_of_int \<lfloor>x / (2 * pi)\<rfloor> = (q - real_of_int \<lfloor>q\<rfloor>) * (2 * pi)"
    by (simp add: q_def [symmetric] xq algebra_simps)
  consider (fl) "trunc_d q = \<lfloor>q\<rfloor>" | (ce) "trunc_d q = \<lfloor>q\<rfloor> + 1" "q \<noteq> real_of_int \<lfloor>q\<rfloor>"
  proof (cases "q = real_of_int \<lfloor>q\<rfloor>")
    case True
    then have "\<lceil>q\<rceil> = \<lfloor>q\<rfloor>" by (simp add: ceiling_altdef)
    then have "trunc_d q = \<lfloor>q\<rfloor>" by (simp add: trunc_d_def)
    then show ?thesis by (rule fl)
  next
    case False
    then have "\<lceil>q\<rceil> = \<lfloor>q\<rfloor> + 1" by (simp add: ceiling_altdef)
    then have "trunc_d q = \<lfloor>q\<rfloor> \<or> trunc_d q = \<lfloor>q\<rfloor> + 1" by (simp add: trunc_d_def)
    then show ?thesis using fl ce False by blast
  qed
  then show ?thesis
  proof cases
    case fl
    have wv: "w = (q - real_of_int \<lfloor>q\<rfloor>) * (2 * pi)" using w_eq fl by simp
    have "0 \<le> (q - real_of_int \<lfloor>q\<rfloor>) * (2 * pi)"
      using lo tp by (intro mult_nonneg_nonneg) simp_all
    then have "\<not> w < 0" unfolding wv by linarith
    then have "(if w < 0 then w + 2 * pi else w) = w" by simp
    also have "w = x - 2 * pi * real_of_int \<lfloor>x / (2 * pi)\<rfloor>"
      unfolding wv goal_eq ..
    finally show ?thesis .
  next
    case ce
    have wv: "w = (q - real_of_int (\<lfloor>q\<rfloor> + 1)) * (2 * pi)" using w_eq ce by simp
    have "q < real_of_int \<lfloor>q\<rfloor> + 1" by linarith
    then have "(q - real_of_int (\<lfloor>q\<rfloor> + 1)) * (2 * pi) < 0"
      using tp by (intro mult_neg_pos) simp_all
    then have "w < 0" unfolding wv .
    then have "(if w < 0 then w + 2 * pi else w) = w + 2 * pi" by simp
    also have "w + 2 * pi = (q - real_of_int \<lfloor>q\<rfloor>) * (2 * pi)"
      unfolding wv by (simp add: algebra_simps)
    also have "\<dots> = x - 2 * pi * real_of_int \<lfloor>x / (2 * pi)\<rfloor>"
      unfolding goal_eq ..
    finally show ?thesis .
  qed
qed

lemma wrap_angle_floor:
  "wrap_angle a = a - 2 * pi * real_of_int \<lfloor>(a + pi) / (2 * pi)\<rfloor>"
  using fmod_two_pi_normalised [of "a + pi"] by (simp add: wrap_angle_def Let_def)

lemma wrap_angle_real_range: "- pi \<le> wrap_angle a \<and> wrap_angle a < pi"
proof -
  define q where "q = (a + pi) / (2 * pi)"
  have tp: "0 < 2 * pi" by simp
  have aq: "a = q * (2 * pi) - pi" by (simp add: q_def)
  have w: "wrap_angle a = (q - real_of_int \<lfloor>q\<rfloor>) * (2 * pi) - pi"
    unfolding wrap_angle_floor q_def [symmetric] by (subst (1) aq) (simp add: algebra_simps)
  have f0: "0 \<le> q - real_of_int \<lfloor>q\<rfloor>" and f1: "q - real_of_int \<lfloor>q\<rfloor> < 1"
    by linarith+
  have "0 \<le> (q - real_of_int \<lfloor>q\<rfloor>) * (2 * pi)"
    using f0 tp by (intro mult_nonneg_nonneg) simp_all
  then have lo: "- pi \<le> wrap_angle a" using w by linarith
  have "(q - real_of_int \<lfloor>q\<rfloor>) * (2 * pi) < 1 * (2 * pi)"
    using f1 tp by (simp only: mult_less_cancel_right_pos)
  then have hi: "wrap_angle a < pi" using w by linarith
  show ?thesis using lo hi by simp
qed

lemma wrap_angle_periodic: "wrap_angle (a + 2 * pi * real_of_int k) = wrap_angle a"
proof -
  define q where "q = (a + pi) / (2 * pi)"
  have "(a + 2 * pi * real_of_int k + pi) / (2 * pi) = q + real_of_int k"
    by (simp add: q_def field_simps)
  then have "wrap_angle (a + 2 * pi * real_of_int k)
      = a + 2 * pi * real_of_int k - 2 * pi * real_of_int \<lfloor>q + real_of_int k\<rfloor>"
    by (simp add: wrap_angle_floor)
  also have "\<dots> = a - 2 * pi * real_of_int \<lfloor>q\<rfloor>"
    by (simp add: algebra_simps)
  also have "\<dots> = wrap_angle a"
    by (simp add: wrap_angle_floor q_def)
  finally show ?thesis .
qed

lemma wrap_angle_zero: "wrap_angle 0 = 0"
  by (simp add: wrap_angle_floor)

text \<open>
  Claim C4, as the code has it: for every angle \<open>a\<close> the wrapped angle lies in the closed
  interval from \<open>- pi\<close> to \<open>pi\<close>, and the wrap is periodic: adding any integer multiple
  of \<open>2 * pi\<close> to \<open>a\<close> does not change it. The lower end is attained, at \<open>a = pi\<close>. In exact
  arithmetic the upper end is not (lemma \<open>wrap_angle_real_range\<close>), but the addition of
  \<open>2 * pi\<close> in line 74 can round up to it, so the interval is stated closed.
\<close>

theorem wrap_angle_range_periodic:
  "- pi \<le> wrap_angle a \<and> wrap_angle a \<le> pi \<and>
   wrap_angle (a + 2 * pi * real_of_int k) = wrap_angle a"
  using wrap_angle_real_range [of a] wrap_angle_periodic [of a k] by simp

text \<open>
  The interval of claim C4 is open at \<open>- pi\<close>; the code maps \<open>pi\<close> to \<open>- pi\<close>, which is
  outside it.
\<close>

theorem wrap_angle_pi_counterexample:
  "\<not> (- pi < wrap_angle pi \<and> wrap_angle pi \<le> pi)"
proof -
  have "wrap_angle pi = - pi"
    by (simp add: wrap_angle_floor)
  then show ?thesis by simp
qed

subsection \<open>Heading-rate reference\<close>

lemma mod_d_pos_eq:
  assumes "0 < P" and "0 \<le> a + P * real_of_int k" and "a + P * real_of_int k < P"
  shows "mod_d a P = a + P * real_of_int k"
proof -
  have e: "a / P + real_of_int k = (a + P * real_of_int k) / P"
    using assms(1) by (simp add: field_simps)
  have "0 \<le> a / P + real_of_int k"
    unfolding e using assms(1,2) by (intro divide_nonneg_pos)
  moreover have "a / P + real_of_int k < 1"
    unfolding e using assms(1,3) by (simp only: divide_less_eq_1_pos)
  ultimately have "real_of_int (- k) \<le> a / P" and "a / P < real_of_int (- k) + 1"
    by simp_all
  then have "\<lfloor>a / P\<rfloor> = - k" by (rule floor_unique)
  then show ?thesis by (simp add: mod_d_def Let_def algebra_simps)
qed

lemma mod_d_neg_eq:
  assumes "0 < P" and "- P < a + P * real_of_int k" and "a + P * real_of_int k \<le> 0"
  shows "mod_d a (- P) = a + P * real_of_int k"
proof -
  have e: "a / P + real_of_int k = (a + P * real_of_int k) / P"
    using assms(1) by (simp add: field_simps)
  have "a / P + real_of_int k \<le> 0"
    unfolding e using assms(1,3) by (intro divide_nonpos_pos)
  moreover have "- 1 < a / P + real_of_int k"
  proof -
    have "- P / P < (a + P * real_of_int k) / P"
      using assms(1,2) by (intro divide_strict_right_mono)
    then show ?thesis unfolding e using assms(1) by simp
  qed
  ultimately have "real_of_int k \<le> - (a / P)" and "- (a / P) < real_of_int k + 1"
    by simp_all
  then have "\<lfloor>- (a / P)\<rfloor> = k" by (rule floor_unique)
  then show ?thesis by (simp add: mod_d_def Let_def algebra_simps)
qed

lemma mod_d_neg_range:
  assumes "0 < P"
  shows "\<exists>k. mod_d a (- P) = a + P * real_of_int k \<and>
       - P < a + P * real_of_int k \<and> a + P * real_of_int k \<le> 0"
proof -
  define k where "k = \<lfloor>- (a / P)\<rfloor>"
  have e: "a + P * real_of_int k = (a / P + real_of_int k) * P"
    using assms by (simp add: field_simps)
  have "real_of_int k \<le> - (a / P)" unfolding k_def by (rule of_int_floor_le)
  then have "a / P + real_of_int k \<le> 0" by simp
  then have u: "a + P * real_of_int k \<le> 0"
    unfolding e using assms by (intro mult_nonpos_nonneg) simp_all
  have "- (a / P) < real_of_int k + 1" unfolding k_def by linarith
  then have "- 1 < a / P + real_of_int k" by simp
  then have "(- 1) * P < (a / P + real_of_int k) * P"
    using assms by (simp only: mult_less_cancel_right_pos)
  then have l: "- P < a + P * real_of_int k" unfolding e by simp
  show ?thesis using mod_d_neg_eq [OF assms l u] l u by blast
qed

lemma limit_D_psiref_shift_range:
  assumes "- (2 * pi) \<le> D"
  shows "\<exists>k. limit_D_psiref D = D + 2 * pi * real_of_int k \<and>
             - pi < limit_D_psiref D \<and> limit_D_psiref D \<le> pi"
proof -
  have tp: "0 < 2 * pi" by simp
  have m: "- 2 * pi = - (2 * pi)" by simp
  show ?thesis
  proof (cases "D \<ge> pi")
    case True
    obtain k where k: "mod_d D (- (2 * pi)) = D + 2 * pi * real_of_int k"
        "- (2 * pi) < D + 2 * pi * real_of_int k" "D + 2 * pi * real_of_int k \<le> 0"
      using mod_d_neg_range [OF tp, of D] by auto
    define D1 where "D1 = D + 2 * pi * real_of_int k"
    have D1: "mod_d D (- (2 * pi)) = D1" "- (2 * pi) < D1" "D1 \<le> 0"
      using k unfolding D1_def by simp_all
    show ?thesis
    proof (cases "D1 \<le> - pi")
      case le: True
      have "0 \<le> D1 + 2 * pi" "D1 + 2 * pi < 2 * pi"
        using le D1(2) pi_gt_zero by linarith+
      then have "mod_d D1 (2 * pi) = D1 + 2 * pi * real_of_int 1"
        by (intro mod_d_pos_eq [OF tp]) simp_all
      then have "limit_D_psiref D = D1 + 2 * pi"
        using True le D1(1) unfolding limit_D_psiref_def Let_def m by simp
      moreover have "- pi < D1 + 2 * pi" "D1 + 2 * pi \<le> pi"
        using le D1(2) pi_gt_zero by linarith+
      moreover have "D1 + 2 * pi = D + 2 * pi * real_of_int (k + 1)"
        unfolding D1_def by (simp add: algebra_simps)
      ultimately show ?thesis by metis
    next
      case False
      then have "limit_D_psiref D = D1"
        using True D1(1) unfolding limit_D_psiref_def Let_def m by simp
      moreover have "- pi < D1" "D1 \<le> pi"
        using False D1(3) pi_gt_zero by linarith+
      ultimately show ?thesis unfolding D1_def by metis
    qed
  next
    case False
    show ?thesis
    proof (cases "D \<le> - pi")
      case le: True
      have "0 \<le> D + 2 * pi" "D + 2 * pi < 2 * pi"
        using le assms pi_gt_zero by linarith+
      then have "mod_d D (2 * pi) = D + 2 * pi * real_of_int 1"
        by (intro mod_d_pos_eq [OF tp]) simp_all
      then have "limit_D_psiref D = D + 2 * pi * real_of_int 1"
        using False le unfolding limit_D_psiref_def Let_def by simp
      moreover have "- pi < D + 2 * pi" "D + 2 * pi \<le> pi"
        using le assms pi_gt_zero by linarith+
      ultimately show ?thesis by (intro exI [of _ 1]) simp
    next
      case gt: False
      have "limit_D_psiref D = D"
        using False gt unfolding limit_D_psiref_def Let_def by simp
      moreover have "- pi < D" "D \<le> pi"
        using False gt by linarith+
      ultimately show ?thesis by (intro exI [of _ 0]) simp
    qed
  qed
qed

lemma two_pi_window_unique:
  assumes "r = D + 2 * pi * real_of_int k" and "- pi < r" and "r \<le> pi"
    and "- pi < D + 2 * pi * real_of_int m" and "D + 2 * pi * real_of_int m \<le> pi"
  shows "r = D + 2 * pi * real_of_int m"
proof -
  have tp: "0 < 2 * pi" by simp
  have "2 * pi * real_of_int k - 2 * pi * real_of_int m < 2 * pi"
    and "- (2 * pi) < 2 * pi * real_of_int k - 2 * pi * real_of_int m"
    using assms by linarith+
  then have "real_of_int (k - m) * (2 * pi) < 1 * (2 * pi)"
    and "(- 1) * (2 * pi) < real_of_int (k - m) * (2 * pi)"
    by (simp_all add: algebra_simps)
  then have "real_of_int (k - m) < 1" and "- 1 < real_of_int (k - m)"
    by (simp_all only: mult_less_cancel_right_pos [OF tp])
  then have "k = m" by linarith
  then show ?thesis using assms(1) by simp
qed

lemma limit_D_psiref_pi: "limit_D_psiref pi = pi"
proof -
  have "- (2 * pi) \<le> pi" using pi_gt_zero by linarith
  then obtain j where j: "limit_D_psiref pi = pi + 2 * pi * real_of_int j"
      "- pi < limit_D_psiref pi" "limit_D_psiref pi \<le> pi"
    using limit_D_psiref_shift_range [of pi] by blast
  have "- pi < pi + 2 * pi * real_of_int 0" "pi + 2 * pi * real_of_int 0 \<le> pi"
    by simp_all
  from two_pi_window_unique [OF j this] show ?thesis by simp
qed

text \<open>
  Claim C3, as the code has it. The code reduces the heading difference with the
  floored modulo \<open>mod_d\<close>, not with one correction step. For every pair of consecutive
  headings whose difference is at least \<open>- 2 * pi\<close>, the result lies in \<open>[- pi, pi]\<close> (and
  is never \<open>- pi\<close>), and it differs from the difference by an integer multiple of
  \<open>2 * pi\<close>. It is the single correction of the spec for differences up to \<open>3 * pi\<close>
  other than \<open>pi\<close>; at exactly \<open>pi\<close> both tests fire and the result is \<open>pi\<close> again.
  Differences below \<open>- 2 * pi\<close> are left out: there the second test alone applies and
  its result can exceed \<open>pi\<close>, against the comment of line 130.
\<close>

theorem limit_D_psiref_floored_modulo:
  assumes "- (2 * pi) \<le> psi_next - psi_cur"
  shows "- pi \<le> limit_D_psiref (psi_next - psi_cur) \<and>
         limit_D_psiref (psi_next - psi_cur) \<le> pi \<and>
         limit_D_psiref (psi_next - psi_cur) \<noteq> - pi \<and>
         (\<exists>k. limit_D_psiref (psi_next - psi_cur) = psi_next - psi_cur + 2 * pi * real_of_int k) \<and>
         (psi_next - psi_cur \<le> 3 * pi \<and> psi_next - psi_cur \<noteq> pi \<longrightarrow>
            limit_D_psiref (psi_next - psi_cur) = single_correction (psi_next - psi_cur)) \<and>
         limit_D_psiref pi = pi"
proof -
  define D where "D = psi_next - psi_cur"
  obtain k where k: "limit_D_psiref D = D + 2 * pi * real_of_int k"
      "- pi < limit_D_psiref D" "limit_D_psiref D \<le> pi"
    using limit_D_psiref_shift_range [of D] assms unfolding D_def by blast
  have sc: "limit_D_psiref D = single_correction D" if le: "D \<le> 3 * pi" and ne: "D \<noteq> pi"
  proof -
    consider (hi) "pi < D" | (lo) "D \<le> - pi" | (mid) "- pi < D" "D < pi"
      using ne by linarith
    then show ?thesis
    proof cases
      case hi
      have "- pi < D + 2 * pi * real_of_int (- 1)" "D + 2 * pi * real_of_int (- 1) \<le> pi"
        using hi le by simp_all
      from two_pi_window_unique [OF k this]
      show ?thesis using hi by (simp add: single_correction_def)
    next
      case lo
      have "- pi < D + 2 * pi * real_of_int 1" "D + 2 * pi * real_of_int 1 \<le> pi"
        using lo assms pi_gt_zero unfolding D_def by (simp; linarith)+
      from two_pi_window_unique [OF k this]
      show ?thesis using lo pi_gt_zero by (simp add: single_correction_def; linarith)
    next
      case mid
      have "- pi < D + 2 * pi * real_of_int 0" "D + 2 * pi * real_of_int 0 \<le> pi"
        using mid by simp_all
      from two_pi_window_unique [OF k this]
      show ?thesis using mid by (simp add: single_correction_def)
    qed
  qed
  show ?thesis using k sc limit_D_psiref_pi unfolding D_def by auto
qed

theorem limit_D_psiref_floored_modulo_witness:
  "- (2 * pi) \<le> 5 / 2 - (- (5 / 2)) \<and> 5 / 2 - (- (5 / 2)) \<le> 3 * pi \<and>
   5 / 2 - (- (5 / 2)) \<noteq> pi \<and>
   limit_D_psiref (5 / 2 - (- (5 / 2))) = 5 - 2 * pi \<and> - pi \<le> 5 - 2 * pi \<and> 5 - 2 * pi \<le> pi"
proof -
  have b: "2 \<le> pi" "pi < 4" using pi_ge_two pi_less_4 by simp_all
  have h: "- (2 * pi) \<le> 5 / 2 - (- (5 / 2))" using b by simp
  have s: "single_correction (5 / 2 - (- (5 / 2))) = 5 - 2 * pi"
    using b by (simp add: single_correction_def)
  have r: "5 / 2 - (- (5 / 2)) \<le> 3 * pi \<and> 5 / 2 - (- (5 / 2)) \<noteq> pi" using b by simp
  have "limit_D_psiref (5 / 2 - (- (5 / 2))) = 5 - 2 * pi"
    using limit_D_psiref_floored_modulo [OF h] r s by simp
  moreover have "- pi \<le> 5 - 2 * pi" "5 - 2 * pi \<le> pi" using b by simp_all
  ultimately show ?thesis using h r by simp
qed

text \<open>
  Claim C3 as stated fails where the code's modulo is not one correction of \<open>2 * pi\<close>.
  For a heading difference of \<open>7 * pi / 2\<close> the code subtracts \<open>4 * pi\<close> and returns
  \<open>- pi / 2\<close>, where a single correction gives \<open>3 * pi / 2\<close>. For a difference of exactly
  \<open>pi\<close> both tests apply, the first subtracting and the second adding \<open>2 * pi\<close>, and the
  code returns \<open>pi\<close>, where a single correction gives \<open>- pi\<close>.
\<close>

theorem limit_D_psiref_general_modulo_counterexample:
  "limit_D_psiref (7 * pi / 2) = - (pi / 2) \<and> single_correction (7 * pi / 2) = 3 * pi / 2 \<and>
   limit_D_psiref (7 * pi / 2) \<noteq> single_correction (7 * pi / 2) \<and>
   limit_D_psiref pi = pi \<and> single_correction pi = - pi \<and>
   limit_D_psiref pi \<noteq> single_correction pi"
proof -
  have tp: "0 < 2 * pi" by simp
  have m: "- 2 * pi = - (2 * pi)" by simp
  have "- (2 * pi) < 7 * pi / 2 + 2 * pi * real_of_int (- 2)"
    and "7 * pi / 2 + 2 * pi * real_of_int (- 2) \<le> 0"
    using pi_gt_zero by simp_all
  then have "mod_d (7 * pi / 2) (- (2 * pi)) = 7 * pi / 2 + 2 * pi * real_of_int (- 2)"
    by (rule mod_d_neg_eq [OF tp])
  then have md: "mod_d (7 * pi / 2) (- (2 * pi)) = - (pi / 2)" by simp
  have c: "7 * pi / 2 \<ge> pi" "\<not> - (pi / 2) \<le> - pi"
    using pi_gt_zero by linarith+
  have l1: "limit_D_psiref (7 * pi / 2) = - (pi / 2)"
    unfolding limit_D_psiref_def Let_def m using c md by simp
  have s1: "single_correction (7 * pi / 2) = 3 * pi / 2"
    unfolding single_correction_def using c(1) by simp
  have n1: "- (pi / 2) \<noteq> 3 * pi / 2" using pi_gt_zero by linarith
  note l2 = limit_D_psiref_pi
  have s2: "single_correction pi = - pi"
    unfolding single_correction_def by simp
  have n2: "pi \<noteq> - pi" using pi_gt_zero by linarith
  show ?thesis unfolding l1 s1 l2 s2 using n1 n2 by simp
qed

subsection \<open>Concrete windows\<close>

text \<open>
  Five waypoints on the x-axis, one unit apart. With the vehicle at \<open>(5 / 4, 0)\<close> the
  search stops at index 1; the vehicle is \<open>5 / 4\<close> beyond waypoint 0 along the heading of
  waypoint 1, more than the segment length 1, so the heading index is 2.
\<close>

lemma sqrt_25_16: "sqrt (25 / 16) = 5 / 4"
  by (rule real_sqrt_unique) (simp_all add: power2_eq_square)

lemma search_axis_1:
  "closestpoint_search 5 [0, 1, 2, 3, 4] [0, 0, 0, 0, 0] (5 / 4) 0 1 = Inr 1"
  by (subst closestpoint_search.simps) (simp add: power2_eq_square)

lemma heading_axis_1:
  "select_heading_idx [0, 1, 2, 3, 4] [0, 0, 0, 0, 0] [p0, 0, p2, p3, p4] (5 / 4) 0 1 = Inr 2"
  by (simp add: select_heading_idx_def atan_quotient_def Let_def power2_eq_square sqrt_25_16)

text \<open>
  With the vehicle at \<open>(9 / 4, 0)\<close> the search advances once and stops at index 2, and
  the heading index is 3.
\<close>

lemma search_axis_2:
  "closestpoint_search 5 [0, 1, 2, 3, 4] [0, 0, 0, 0, 0] (9 / 4) 0 1 = Inr 2"
proof -
  have n: "Suc (Suc 0) = 2" by simp
  have "closestpoint_search 5 [0, 1, 2, 3, 4] [0, 0, 0, 0, 0] (9 / 4) 0 1
      = closestpoint_search 5 [0, 1, 2, 3, 4] [0, 0, 0, 0, 0] (9 / 4) 0 2"
    by (subst closestpoint_search.simps) (simp add: power2_eq_square n)
  also have "\<dots> = Inr 2"
    by (subst closestpoint_search.simps) (simp add: power2_eq_square)
  finally show ?thesis .
qed

lemma heading_axis_2:
  "select_heading_idx [0, 1, 2, 3, 4] [0, 0, 0, 0, 0] [p0, p1, 0, p3, p4] (9 / 4) 0 2 = Inr 3"
  by (simp add: select_heading_idx_def atan_quotient_def Let_def power2_eq_square sqrt_25_16)

text \<open>
  With the vehicle on waypoint 0 the search stops at index 1, the quotient of line 144
  is NaN, and the heading index stays 1.
\<close>

lemma search_axis_0:
  "closestpoint_search 5 [0, 1, 2, 3, 4] [0, 0, 0, 0, 0] 0 0 1 = Inr 1"
  by (subst closestpoint_search.simps) (simp add: power2_eq_square)

lemma heading_axis_0:
  "select_heading_idx [0, 1, 2, 3, 4] [0, 0, 0, 0, 0] [p0, p1, p2, p3, p4] 0 0 1 = Inr 1"
  by (simp add: select_heading_idx_def atan_quotient_def Let_def)

lemma limit_D_psiref_small:
  "- pi < D \<Longrightarrow> D < pi \<Longrightarrow> limit_D_psiref D = D"
  by (simp add: limit_D_psiref_def Let_def)

lemma limit_D_psiref_zero: "limit_D_psiref 0 = 0"
  by (rule limit_D_psiref_small) simp_all

lemma limit_D_psiref_half: "limit_D_psiref (1 / 2) = 1 / 2"
proof (rule limit_D_psiref_small)
  show "- pi < 1 / 2" using pi_gt_zero by linarith
  show "1 / 2 < pi" using pi_ge_two by linarith
qed

lemma limit_delta_ref_cases:
  "- pi / 4 \<le> limit_delta_ref d \<and> limit_delta_ref d \<le> pi / 4 \<and>
   (- pi / 4 \<le> d \<and> d \<le> pi / 4 \<longrightarrow> limit_delta_ref d = d) \<and>
   (d > pi / 4 \<longrightarrow> limit_delta_ref d = pi / 4) \<and>
   (d < - pi / 4 \<longrightarrow> limit_delta_ref d = - pi / 4)"
  unfolding limit_delta_ref_def Let_def
  by (auto simp: not_le) (use pi_gt_zero in linarith)+

lemma controller_body_exists:
  assumes "closestpoint_search n X_loc Y_loc X_est Y_est 1 = Inr idx"
    and "idx + 1 < length Psi_loc"
  shows "\<exists>L h. controller_body n X_loc Y_loc Psi_loc X_est Y_est Psi_est v lr lf lambda k1 k2
             e1_max Ad_t Bd_t C_t D_t x = Inr L \<and>
           select_heading_idx X_loc Y_loc Psi_loc X_est Y_est idx = Inr h \<and>
           (h = idx \<or> h = idx + 1) \<and>
           closestpoint_idx L = idx \<and> closestpoint_heading_idx L = h \<and>
           D_psiref L = limit_D_psiref (Psi_loc ! (idx + 1) - Psi_loc ! idx) \<and>
           e1 L = lateral_error X_loc Y_loc Psi_loc X_est Y_est idx h \<and>
           e2 L = heading_error Psi_loc Psi_est h \<and>
           dpsiref L = sample_dpsiref X_loc Y_loc v idx
                         (limit_D_psiref (Psi_loc ! (idx + 1) - Psi_loc ! idx)) \<and>
           closestpoint_idx_out L = int idx - 1 \<and>
           delta_ref_error L = steer_error k1 k2 e1_max (e1 L) (e2 L) \<and>
           delta_ref_psi L = C_t * x + D_t * dpsiref L \<and>
           x_static L = Ad_t * x + Bd_t * dpsiref L \<and>
           delta_ref_sum L = delta_ref_psi L + delta_ref_error L \<and>
           delta_ref L = limit_delta_ref (delta_ref_sum L) \<and>
           roll_ref L = roll_transform (delta_ref L) lambda v lr lf"
proof -
  obtain h where h: "select_heading_idx X_loc Y_loc Psi_loc X_est Y_est idx = Inr h"
    and hc: "h = idx \<or> h = idx + 1"
    using controller_body_completes [OF assms] by blast
  show ?thesis
    unfolding controller_body_eval [OF assms h] Let_def
    using h hc by simp
qed

subsection \<open>Filter step\<close>

text \<open>
  Claim C5: one call performs one state-space step. The step returns
  \<open>C_t * x + D_t * u\<close> and stores \<open>Ad_t * x + Bd_t * u\<close>, both from the value \<open>x\<close> the static
  variable has at entry. In every call whose search stays inside the arrays the input
  \<open>u\<close> of the step is the sampled heading rate of the window at the search index, and
  the call's steering term and stored value are those of the step. The first call of a
  run reads 0, and each later call reads the value the call before it stored.
\<close>

theorem filter_step_uses_entry_state:
  "filter_step Ad_t Bd_t C_t D_t u x = (C_t * x + D_t * u, Ad_t * x + Bd_t * u) \<and>
   (closestpoint_search (length X_loc) X_loc Y_loc X_est Y_est 1 = Inr idx \<and>
    idx + 1 < length Psi_loc \<longrightarrow>
      (\<exists>L. controller_body (length X_loc) X_loc Y_loc Psi_loc X_est Y_est Psi_est v lr lf
              lambda k1 k2 e1_max Ad_t Bd_t C_t D_t x = Inr L \<and>
           dpsiref L = sample_dpsiref X_loc Y_loc v idx
                         (limit_D_psiref (Psi_loc ! (idx + 1) - Psi_loc ! idx)) \<and>
           (delta_ref_psi L, x_static L) = filter_step Ad_t Bd_t C_t D_t (dpsiref L) x \<and>
           delta_ref_psi L = C_t * x + D_t * dpsiref L \<and>
           x_static L = Ad_t * x + Bd_t * dpsiref L)) \<and>
   controller_run [call1] = [call1 0] \<and>
   (call1 0 = Inr L1 \<and> call2 (x_static L1) = Inr L2 \<longrightarrow>
      controller_run [call1, call2] = [Inr L1, Inr L2])"
proof -
  have step: "filter_step Ad_t Bd_t C_t D_t u x = (C_t * x + D_t * u, Ad_t * x + Bd_t * u)"
    for u
    by (simp add: filter_step_def Let_def)
  have body: "\<exists>L. controller_body (length X_loc) X_loc Y_loc Psi_loc X_est Y_est Psi_est v lr lf
              lambda k1 k2 e1_max Ad_t Bd_t C_t D_t x = Inr L \<and>
           dpsiref L = sample_dpsiref X_loc Y_loc v idx
                         (limit_D_psiref (Psi_loc ! (idx + 1) - Psi_loc ! idx)) \<and>
           (delta_ref_psi L, x_static L) = filter_step Ad_t Bd_t C_t D_t (dpsiref L) x \<and>
           delta_ref_psi L = C_t * x + D_t * dpsiref L \<and>
           x_static L = Ad_t * x + Bd_t * dpsiref L"
    if "closestpoint_search (length X_loc) X_loc Y_loc X_est Y_est 1 = Inr idx \<and>
        idx + 1 < length Psi_loc"
  proof -
    from that have s: "closestpoint_search (length X_loc) X_loc Y_loc X_est Y_est 1 = Inr idx"
      and p: "idx + 1 < length Psi_loc" by simp_all
    from controller_body_exists [OF s p, where Psi_est = Psi_est and v = v and lr = lr
        and lf = lf and lambda = lambda and ?k1.0 = k1 and ?k2.0 = k2 and e1_max = e1_max
        and Ad_t = Ad_t and Bd_t = Bd_t and C_t = C_t and D_t = D_t and x = x]
    obtain L where L: "controller_body (length X_loc) X_loc Y_loc Psi_loc X_est Y_est Psi_est
          v lr lf lambda k1 k2 e1_max Ad_t Bd_t C_t D_t x = Inr L"
        "dpsiref L = sample_dpsiref X_loc Y_loc v idx
                         (limit_D_psiref (Psi_loc ! (idx + 1) - Psi_loc ! idx))"
        "delta_ref_psi L = C_t * x + D_t * dpsiref L"
        "x_static L = Ad_t * x + Bd_t * dpsiref L"
      by blast
    then show ?thesis by (intro exI [of _ L]) (simp add: step)
  qed
  have one: "controller_run [call1] = [call1 0]"
    by (cases "call1 0") (simp_all add: controller_run_def x_init_def)
  have two: "controller_run [call1, call2] = [Inr L1, Inr L2]"
    if "call1 0 = Inr L1 \<and> call2 (x_static L1) = Inr L2"
    using that by (simp add: controller_run_def x_init_def)
  show ?thesis using step body one two by blast
qed

theorem filter_step_uses_entry_state_witness:
  "closestpoint_search (length [0, 1, 2, 3, 4 :: real]) [0, 1, 2, 3, 4] [0, 0, 0, 0, 0]
      (5 / 4) 0 1 = Inr 1 \<and>
   1 + 1 < length [0, 0, 1 / 2, 1 / 2, 1 / 2 :: real] \<and>
   (\<exists>L1 L2.
      controller_run
        [controller_body 5 [0, 1, 2, 3, 4] [0, 0, 0, 0, 0] [0, 0, 1 / 2, 1 / 2, 1 / 2]
           (5 / 4) 0 (1 / 2) 2 (1 / 2) (1 / 2) 0 1 1 1 (1 / 2) 1 (1 / 8) (1 / 4),
         controller_body 5 [0, 1, 2, 3, 4] [0, 0, 0, 0, 0] [0, 0, 1 / 2, 1 / 2, 1 / 2]
           (5 / 4) 0 (1 / 2) 2 (1 / 2) (1 / 2) 0 1 1 1 (1 / 2) 1 (1 / 8) (1 / 4)]
        = [Inr L1, Inr L2] \<and>
      dpsiref L1 = 1 \<and> delta_ref_psi L1 = 1 / 4 \<and> x_static L1 = 1 \<and>
      dpsiref L2 = 1 \<and> delta_ref_psi L2 = 3 / 8 \<and> x_static L2 = 3 / 2)"
proof -
  let ?call = "controller_body 5 [0, 1, 2, 3, 4] [0, 0, 0, 0, 0] [0, 0, 1 / 2, 1 / 2, 1 / 2]
           (5 / 4) 0 (1 / 2) 2 (1 / 2) (1 / 2) 0 1 1 1 (1 / 2) 1 (1 / 8) (1 / 4)"
  have len: "length [0, 1, 2, 3, 4 :: real] = 5" by simp
  have s: "closestpoint_search (length [0, 1, 2, 3, 4 :: real]) [0, 1, 2, 3, 4] [0, 0, 0, 0, 0]
      (5 / 4) 0 1 = Inr 1"
    unfolding len by (rule search_axis_1)
  have p: "1 + 1 < length [0, 0, 1 / 2, 1 / 2, 1 / 2 :: real]" by simp
  have u: "sample_dpsiref [0, 1, 2, 3, 4] [0, 0, 0, 0, 0] 2 1
             (limit_D_psiref ([0, 0, 1 / 2, 1 / 2, 1 / 2] ! (1 + 1)
                              - [0, 0, 1 / 2, 1 / 2, 1 / 2] ! 1)) = 1"
    by (simp add: sample_dpsiref_def Let_def limit_D_psiref_half)
  have b: "\<exists>L. controller_body (length [0, 1, 2, 3, 4 :: real]) [0, 1, 2, 3, 4] [0, 0, 0, 0, 0]
          [0, 0, 1 / 2, 1 / 2, 1 / 2] (5 / 4) 0 (1 / 2) 2 (1 / 2) (1 / 2) 0 1 1 1
          (1 / 2) 1 (1 / 8) (1 / 4) x = Inr L \<and>
        dpsiref L = sample_dpsiref [0, 1, 2, 3, 4] [0, 0, 0, 0, 0] 2 1
                      (limit_D_psiref ([0, 0, 1 / 2, 1 / 2, 1 / 2] ! (1 + 1)
                                       - [0, 0, 1 / 2, 1 / 2, 1 / 2] ! 1)) \<and>
        (delta_ref_psi L, x_static L) = filter_step (1 / 2) 1 (1 / 8) (1 / 4) (dpsiref L) x \<and>
        delta_ref_psi L = 1 / 8 * x + 1 / 4 * dpsiref L \<and>
        x_static L = 1 / 2 * x + 1 * dpsiref L" for x
    by (rule filter_step_uses_entry_state
          [THEN conjunct2, THEN conjunct1, THEN mp, OF conjI [OF s p]])
  obtain L1 where L1: "?call 0 = Inr L1" "dpsiref L1 = 1" "delta_ref_psi L1 = 1 / 4"
      "x_static L1 = 1"
    using b [of 0] unfolding len u by auto
  obtain L2 where L2: "?call 1 = Inr L2" "dpsiref L2 = 1" "delta_ref_psi L2 = 3 / 8"
      "x_static L2 = 3 / 2"
    using b [of 1] unfolding len u by auto
  have "controller_run [?call, ?call] = [Inr L1, Inr L2]"
    by (rule filter_step_uses_entry_state
          [THEN conjunct2, THEN conjunct2, THEN conjunct2, THEN mp])
       (simp add: L1 L2)
  then show ?thesis using s p L1 L2 by blast
qed

subsection \<open>Steering synthesis\<close>

lemma sign_is_sgn: "sign a = sgn a"
  by (simp add: sign_def sgn_real_def)

lemma min_d_is_min: "min_d a b = min a b"
  by (simp add: min_d_def min_def)

text \<open>
  Claim C7, as the code has it. For every lateral error \<open>a\<close> and heading error \<open>b\<close> the
  error term is \<open>- k1 * sgn a * min \<bar>a\<bar> e1_max - k2 * b\<close> with the three-way sign
  (\<open>sign 0 = 0\<close>). When the bound \<open>e1_max\<close> is not negative and \<open>\<bar>a\<bar>\<close> exceeds it, the
  magnitude of the lateral contribution is \<open>\<bar>k1\<bar> * e1_max\<close>, whatever \<open>a\<close> is; that is
  \<open>k1 * e1_max\<close> when the gain is not negative.
\<close>

theorem steer_error_saturated:
  "steer_error k1 k2 e1_max a b = - k1 * sgn a * min \<bar>a\<bar> e1_max - k2 * b \<and>
   sign 0 = 0 \<and>
   (0 \<le> e1_max \<and> e1_max < \<bar>a\<bar> \<longrightarrow>
      \<bar>steer_error k1 k2 e1_max a b + k2 * b\<bar> = \<bar>k1\<bar> * e1_max) \<and>
   (0 \<le> k1 \<and> 0 \<le> e1_max \<and> e1_max < \<bar>a\<bar> \<longrightarrow>
      \<bar>steer_error k1 k2 e1_max a b + k2 * b\<bar> = k1 * e1_max)"
proof -
  have eq: "steer_error k1 k2 e1_max a b = - k1 * sgn a * min \<bar>a\<bar> e1_max - k2 * b"
    by (simp add: steer_error_def sign_is_sgn min_d_is_min)
  have sat: "\<bar>steer_error k1 k2 e1_max a b + k2 * b\<bar> = \<bar>k1\<bar> * e1_max"
    if "0 \<le> e1_max" and "e1_max < \<bar>a\<bar>"
  proof -
    have "a \<noteq> 0" using that by auto
    then have "\<bar>sgn a\<bar> = 1" by (simp add: sgn_real_def)
    moreover have "min \<bar>a\<bar> e1_max = e1_max" using that by simp
    ultimately show ?thesis using that(1) by (simp add: eq abs_mult)
  qed
  have "sign 0 = 0" by (simp add: sign_def)
  then show ?thesis using eq sat by simp
qed

theorem steer_error_saturated_witness:
  "(0::real) \<le> 1 \<and> (1::real) < \<bar>5\<bar> \<and> (0::real) \<le> 2 \<and>
   \<bar>steer_error 2 3 1 5 (1 / 4) + 3 * (1 / 4)\<bar> = 2 * 1 \<and>
   \<bar>steer_error 2 3 1 7 (1 / 4) + 3 * (1 / 4)\<bar> = 2 * 1"
  using steer_error_saturated [of 2 3 1 5 "1 / 4"] steer_error_saturated [of 2 3 1 7 "1 / 4"]
  by simp

text \<open>
  Claim C7 as stated fails for a negative gain: with \<open>k1 = - 1\<close>, \<open>e1_max = 1\<close> and
  \<open>e1 = 2\<close> the lateral contribution is 1, and \<open>k1 * e1_max\<close> is \<open>- 1\<close>.
\<close>

theorem steer_error_negative_gain_counterexample:
  "1 < \<bar>2 :: real\<bar> \<and> \<not> \<bar>steer_error (- 1) 0 1 2 0 + 0 * 0\<bar> = (- 1) * 1"
  by (simp add: steer_error_def sign_def min_d_def)

text \<open>
  Claim C8: the steering reference is clamped before it is used. For every value \<open>d\<close>
  the clamped value lies in \<open>[- pi / 4, pi / 4]\<close>; it is \<open>d\<close> itself when \<open>d\<close> is inside the
  interval, \<open>pi / 4\<close> when \<open>d\<close> is above and \<open>- pi / 4\<close> when it is below. In every call whose
  search stays inside the arrays the value clamped is the sum of the filter's steering
  term and the error term, both computed from the inputs, and the roll transform is
  applied to the clamped value.
\<close>

theorem delta_ref_clamped:
  "- pi / 4 \<le> limit_delta_ref d \<and> limit_delta_ref d \<le> pi / 4 \<and>
   (- pi / 4 \<le> d \<and> d \<le> pi / 4 \<longrightarrow> limit_delta_ref d = d) \<and>
   (d > pi / 4 \<longrightarrow> limit_delta_ref d = pi / 4) \<and>
   (d < - pi / 4 \<longrightarrow> limit_delta_ref d = - pi / 4) \<and>
   (closestpoint_search (length X_loc) X_loc Y_loc X_est Y_est 1 = Inr idx \<and>
    idx + 1 < length Psi_loc \<longrightarrow>
      (\<exists>L h. controller_body (length X_loc) X_loc Y_loc Psi_loc X_est Y_est Psi_est v lr lf
                lambda k1 k2 e1_max Ad_t Bd_t C_t D_t x = Inr L \<and>
             select_heading_idx X_loc Y_loc Psi_loc X_est Y_est idx = Inr h \<and>
             delta_ref_sum L =
               C_t * x
               + D_t * sample_dpsiref X_loc Y_loc v idx
                         (limit_D_psiref (Psi_loc ! (idx + 1) - Psi_loc ! idx))
               + steer_error k1 k2 e1_max
                   (lateral_error X_loc Y_loc Psi_loc X_est Y_est idx h)
                   (heading_error Psi_loc Psi_est h) \<and>
             delta_ref L = limit_delta_ref (delta_ref_sum L) \<and>
             - pi / 4 \<le> delta_ref L \<and> delta_ref L \<le> pi / 4 \<and>
             roll_ref L = roll_transform (delta_ref L) lambda v lr lf))"
proof -
  have body: "\<exists>L h. controller_body (length X_loc) X_loc Y_loc Psi_loc X_est Y_est Psi_est v lr lf
                lambda k1 k2 e1_max Ad_t Bd_t C_t D_t x = Inr L \<and>
             select_heading_idx X_loc Y_loc Psi_loc X_est Y_est idx = Inr h \<and>
             delta_ref_sum L =
               C_t * x
               + D_t * sample_dpsiref X_loc Y_loc v idx
                         (limit_D_psiref (Psi_loc ! (idx + 1) - Psi_loc ! idx))
               + steer_error k1 k2 e1_max
                   (lateral_error X_loc Y_loc Psi_loc X_est Y_est idx h)
                   (heading_error Psi_loc Psi_est h) \<and>
             delta_ref L = limit_delta_ref (delta_ref_sum L) \<and>
             - pi / 4 \<le> delta_ref L \<and> delta_ref L \<le> pi / 4 \<and>
             roll_ref L = roll_transform (delta_ref L) lambda v lr lf"
    if "closestpoint_search (length X_loc) X_loc Y_loc X_est Y_est 1 = Inr idx \<and>
        idx + 1 < length Psi_loc"
  proof -
    from that have s: "closestpoint_search (length X_loc) X_loc Y_loc X_est Y_est 1 = Inr idx"
      and p: "idx + 1 < length Psi_loc" by simp_all
    from controller_body_exists [OF s p, where Psi_est = Psi_est and v = v and lr = lr
        and lf = lf and lambda = lambda and ?k1.0 = k1 and ?k2.0 = k2 and e1_max = e1_max
        and Ad_t = Ad_t and Bd_t = Bd_t and C_t = C_t and D_t = D_t and x = x]
    obtain L h where L: "controller_body (length X_loc) X_loc Y_loc Psi_loc X_est Y_est Psi_est
          v lr lf lambda k1 k2 e1_max Ad_t Bd_t C_t D_t x = Inr L"
        "select_heading_idx X_loc Y_loc Psi_loc X_est Y_est idx = Inr h"
        "e1 L = lateral_error X_loc Y_loc Psi_loc X_est Y_est idx h"
        "e2 L = heading_error Psi_loc Psi_est h"
        "dpsiref L = sample_dpsiref X_loc Y_loc v idx
                         (limit_D_psiref (Psi_loc ! (idx + 1) - Psi_loc ! idx))"
        "delta_ref_error L = steer_error k1 k2 e1_max (e1 L) (e2 L)"
        "delta_ref_psi L = C_t * x + D_t * dpsiref L"
        "delta_ref_sum L = delta_ref_psi L + delta_ref_error L"
        "delta_ref L = limit_delta_ref (delta_ref_sum L)"
        "roll_ref L = roll_transform (delta_ref L) lambda v lr lf"
      by blast
    have "- pi / 4 \<le> delta_ref L \<and> delta_ref L \<le> pi / 4"
      using limit_delta_ref_cases [of "delta_ref_sum L"] L(9) by simp
    then show ?thesis using L by (intro exI [of _ L] exI [of _ h]) simp
  qed
  show ?thesis using limit_delta_ref_cases [of d] body by blast
qed

theorem delta_ref_clamped_witness:
  "(8 :: real) > pi / 4 \<and> limit_delta_ref 8 = pi / 4 \<and>
   - pi / 4 \<le> (1 / 2 :: real) \<and> (1 / 2 :: real) \<le> pi / 4 \<and> limit_delta_ref (1 / 2) = 1 / 2 \<and>
   (- 8 :: real) < - pi / 4 \<and> limit_delta_ref (- 8) = - pi / 4 \<and>
   closestpoint_search (length [0, 1, 2, 3, 4 :: real]) [0, 1, 2, 3, 4] [0, 0, 0, 0, 0]
      (5 / 4) 0 1 = Inr 1 \<and>
   1 + 1 < length [0, 0, 0, 0, 0 :: real] \<and>
   (\<exists>L. controller_body 5 [0, 1, 2, 3, 4] [0, 0, 0, 0, 0] [0, 0, 0, 0, 0] (5 / 4) 0 0
          2 (1 / 2) (1 / 2) (pi / 2) 1 1 1 (1 / 2) 1 1 (1 / 4) 8 = Inr L \<and>
        delta_ref_sum L = 8 \<and> delta_ref L = pi / 4)"
proof -
  have pb: "2 \<le> pi" "pi < 4" using pi_ge_two pi_less_4 by simp_all
  have h8: "(8 :: real) > pi / 4" and hh: "- pi / 4 \<le> (1 / 2 :: real)" "(1 / 2 :: real) \<le> pi / 4"
    and hm: "(- 8 :: real) < - pi / 4"
    using pb by simp_all
  have c8: "limit_delta_ref 8 = pi / 4"
    using delta_ref_clamped [where d = 8, THEN conjunct2, THEN conjunct2, THEN conjunct2,
        THEN conjunct1] h8 by blast
  have ch: "limit_delta_ref (1 / 2) = 1 / 2"
    using delta_ref_clamped [where d = "1 / 2", THEN conjunct2, THEN conjunct2,
        THEN conjunct1] hh by blast
  have cm: "limit_delta_ref (- 8) = - pi / 4"
    using delta_ref_clamped [where d = "- 8", THEN conjunct2, THEN conjunct2, THEN conjunct2,
        THEN conjunct2, THEN conjunct1] hm by blast
  have len: "length [0, 1, 2, 3, 4 :: real] = 5" by simp
  have s: "closestpoint_search (length [0, 1, 2, 3, 4 :: real]) [0, 1, 2, 3, 4] [0, 0, 0, 0, 0]
      (5 / 4) 0 1 = Inr 1"
    unfolding len by (rule search_axis_1)
  have p: "1 + 1 < length [0, 0, 0, 0, 0 :: real]" by simp
  have b: "\<exists>L h. controller_body (length [0, 1, 2, 3, 4 :: real]) [0, 1, 2, 3, 4] [0, 0, 0, 0, 0]
          [0, 0, 0, 0, 0] (5 / 4) 0 0 2 (1 / 2) (1 / 2) (pi / 2) 1 1 1 (1 / 2) 1 1 (1 / 4) 8
            = Inr L \<and>
        select_heading_idx [0, 1, 2, 3, 4] [0, 0, 0, 0, 0] [0, 0, 0, 0, 0] (5 / 4) 0 1 = Inr h \<and>
        delta_ref_sum L =
          1 * 8
          + 1 / 4 * sample_dpsiref [0, 1, 2, 3, 4] [0, 0, 0, 0, 0] 2 1
                      (limit_D_psiref ([0, 0, 0, 0, 0] ! (1 + 1) - [0, 0, 0, 0, 0] ! 1))
          + steer_error 1 1 1
              (lateral_error [0, 1, 2, 3, 4] [0, 0, 0, 0, 0] [0, 0, 0, 0, 0] (5 / 4) 0 1 h)
              (heading_error [0, 0, 0, 0, 0] 0 h) \<and>
        delta_ref L = limit_delta_ref (delta_ref_sum L) \<and>
        - pi / 4 \<le> delta_ref L \<and> delta_ref L \<le> pi / 4 \<and>
        roll_ref L = roll_transform (delta_ref L) (pi / 2) 2 (1 / 2) (1 / 2)"
    by (rule delta_ref_clamped
          [THEN conjunct2, THEN conjunct2, THEN conjunct2, THEN conjunct2, THEN conjunct2,
           THEN mp, OF conjI [OF s p]])
  then obtain L h where L: "controller_body 5 [0, 1, 2, 3, 4] [0, 0, 0, 0, 0]
          [0, 0, 0, 0, 0] (5 / 4) 0 0 2 (1 / 2) (1 / 2) (pi / 2) 1 1 1 (1 / 2) 1 1 (1 / 4) 8
            = Inr L"
      "select_heading_idx [0, 1, 2, 3, 4] [0, 0, 0, 0, 0] [0, 0, 0, 0, 0] (5 / 4) 0 1 = Inr h"
      "delta_ref_sum L =
          1 * 8
          + 1 / 4 * sample_dpsiref [0, 1, 2, 3, 4] [0, 0, 0, 0, 0] 2 1
                      (limit_D_psiref ([0, 0, 0, 0, 0] ! (1 + 1) - [0, 0, 0, 0, 0] ! 1))
          + steer_error 1 1 1
              (lateral_error [0, 1, 2, 3, 4] [0, 0, 0, 0, 0] [0, 0, 0, 0, 0] (5 / 4) 0 1 h)
              (heading_error [0, 0, 0, 0, 0] 0 h)"
      "delta_ref L = limit_delta_ref (delta_ref_sum L)"
    unfolding len by blast
  have h2: "h = 2" using L(2) heading_axis_1 [of 0 0 0 0] by simp
  have sum: "delta_ref_sum L = 8"
    unfolding L(3) h2
    by (simp add: sample_dpsiref_def lateral_error_def heading_error_def steer_error_def
        sign_def min_d_def Let_def limit_D_psiref_zero wrap_angle_zero)
  have "delta_ref L = pi / 4" unfolding L(4) sum by (rule c8)
  then show ?thesis using h8 hh hm c8 ch cm s p L(1) sum by blast
qed

subsection \<open>Output index\<close>

text \<open>
  Claim C9: the index written to \<open>closestpoint_idx_out\<close> is the index the search
  returned, minus one. Every call whose search stays inside the arrays completes and
  writes that value; the heading index is the search index or the next one and does
  not enter the output index.
\<close>

theorem closestpoint_idx_out_is_search_index_minus_one:
  "(closestpoint_search (length X_loc) X_loc Y_loc X_est Y_est 1 = Inr idx \<and>
    idx + 1 < length Psi_loc \<longrightarrow>
      (\<exists>L. controller_body (length X_loc) X_loc Y_loc Psi_loc X_est Y_est Psi_est v lr lf
              lambda k1 k2 e1_max Ad_t Bd_t C_t D_t x = Inr L \<and>
           closestpoint_idx L = idx \<and>
           closestpoint_idx_out L = int idx - 1 \<and>
           (closestpoint_heading_idx L = idx \<or> closestpoint_heading_idx L = idx + 1))) \<and>
   (controller_body n X_loc Y_loc Psi_loc X_est Y_est Psi_est v lr lf
      lambda k1 k2 e1_max Ad_t Bd_t C_t D_t x = Inr L' \<longrightarrow>
      closestpoint_search n X_loc Y_loc X_est Y_est 1 = Inr (closestpoint_idx L') \<and>
      closestpoint_idx_out L' = int (closestpoint_idx L') - 1)"
proof -
  have ex: "\<exists>L. controller_body (length X_loc) X_loc Y_loc Psi_loc X_est Y_est Psi_est v lr lf
              lambda k1 k2 e1_max Ad_t Bd_t C_t D_t x = Inr L \<and>
           closestpoint_idx L = idx \<and>
           closestpoint_idx_out L = int idx - 1 \<and>
           (closestpoint_heading_idx L = idx \<or> closestpoint_heading_idx L = idx + 1)"
    if "closestpoint_search (length X_loc) X_loc Y_loc X_est Y_est 1 = Inr idx \<and>
        idx + 1 < length Psi_loc"
  proof -
    from that have s: "closestpoint_search (length X_loc) X_loc Y_loc X_est Y_est 1 = Inr idx"
      and p: "idx + 1 < length Psi_loc" by simp_all
    from controller_body_exists [OF s p, where Psi_est = Psi_est and v = v and lr = lr
        and lf = lf and lambda = lambda and ?k1.0 = k1 and ?k2.0 = k2 and e1_max = e1_max
        and Ad_t = Ad_t and Bd_t = Bd_t and C_t = C_t and D_t = D_t and x = x]
    obtain L h where L: "controller_body (length X_loc) X_loc Y_loc Psi_loc X_est Y_est Psi_est
          v lr lf lambda k1 k2 e1_max Ad_t Bd_t C_t D_t x = Inr L"
        "h = idx \<or> h = idx + 1" "closestpoint_idx L = idx" "closestpoint_heading_idx L = h"
        "closestpoint_idx_out L = int idx - 1"
      by blast
    then show ?thesis by (intro exI [of _ L]) simp
  qed
  have el: "closestpoint_search n X_loc Y_loc X_est Y_est 1 = Inr (closestpoint_idx L') \<and>
      closestpoint_idx_out L' = int (closestpoint_idx L') - 1"
    if "controller_body n X_loc Y_loc Psi_loc X_est Y_est Psi_est v lr lf
      lambda k1 k2 e1_max Ad_t Bd_t C_t D_t x = Inr L'"
    using controller_body_Inr(1,8) [OF that] by simp
  show ?thesis using ex el by blast
qed

theorem closestpoint_idx_out_is_search_index_minus_one_witness:
  "closestpoint_search (length [0, 1, 2, 3, 4 :: real]) [0, 1, 2, 3, 4] [0, 0, 0, 0, 0]
      (9 / 4) 0 1 = Inr 2 \<and>
   2 + 1 < length [0, 0, 0, 0, 0 :: real] \<and>
   (\<exists>L. controller_body 5 [0, 1, 2, 3, 4] [0, 0, 0, 0, 0] [0, 0, 0, 0, 0] (9 / 4) 0 0
          2 (1 / 2) (1 / 2) (pi / 2) 1 1 1 (1 / 2) 1 1 (1 / 4) 0 = Inr L \<and>
        closestpoint_idx L = 2 \<and> closestpoint_heading_idx L = 3 \<and>
        closestpoint_idx_out L = 1)"
proof -
  have len: "length [0, 1, 2, 3, 4 :: real] = 5" by simp
  have s: "closestpoint_search (length [0, 1, 2, 3, 4 :: real]) [0, 1, 2, 3, 4] [0, 0, 0, 0, 0]
      (9 / 4) 0 1 = Inr 2"
    unfolding len by (rule search_axis_2)
  have p: "2 + 1 < length [0, 0, 0, 0, 0 :: real]" by simp
  have "\<exists>L. controller_body (length [0, 1, 2, 3, 4 :: real]) [0, 1, 2, 3, 4] [0, 0, 0, 0, 0]
          [0, 0, 0, 0, 0] (9 / 4) 0 0 2 (1 / 2) (1 / 2) (pi / 2) 1 1 1 (1 / 2) 1 1 (1 / 4) 0
            = Inr L \<and>
        closestpoint_idx L = 2 \<and> closestpoint_idx_out L = int 2 - 1 \<and>
        (closestpoint_heading_idx L = 2 \<or> closestpoint_heading_idx L = 2 + 1)"
    by (rule closestpoint_idx_out_is_search_index_minus_one
          [THEN conjunct1, THEN mp, OF conjI [OF s p]])
  then obtain L where L: "controller_body 5 [0, 1, 2, 3, 4] [0, 0, 0, 0, 0]
          [0, 0, 0, 0, 0] (9 / 4) 0 0 2 (1 / 2) (1 / 2) (pi / 2) 1 1 1 (1 / 2) 1 1 (1 / 4) 0
            = Inr L"
      "closestpoint_idx L = 2" "closestpoint_idx_out L = int 2 - 1"
    unfolding len by blast
  have "select_heading_idx [0, 1, 2, 3, 4] [0, 0, 0, 0, 0] [0, 0, 0, 0, 0] (9 / 4) 0
          (closestpoint_idx L) = Inr (closestpoint_heading_idx L)"
    by (rule controller_body_Inr(3) [OF L(1)])
  then have "closestpoint_heading_idx L = 3"
    unfolding L(2) using heading_axis_2 [of 0 0 0 0] by simp
  then show ?thesis using s p L by (intro conjI exI [of _ L]) simp_all
qed

subsection \<open>Roll reference on the path\<close>

text \<open>
  Claim C10, as the code has it: in every call whose search stays inside the arrays,
  when the lateral error, the heading error and the sampled heading rate computed from
  the inputs are zero, the filter state at entry is zero and \<open>lr + lf\<close> is not zero,
  the call completes with these errors and the roll reference 0. The trajectory need
  not be straight, and \<open>v\<close> may be zero.
\<close>

theorem roll_ref_zero_on_path:
  assumes "closestpoint_search (length X_loc) X_loc Y_loc X_est Y_est 1 = Inr idx"
    and "idx + 1 < length Psi_loc"
    and "select_heading_idx X_loc Y_loc Psi_loc X_est Y_est idx = Inr h"
    and "lateral_error X_loc Y_loc Psi_loc X_est Y_est idx h = 0"
    and "heading_error Psi_loc Psi_est h = 0"
    and "sample_dpsiref X_loc Y_loc v idx
           (limit_D_psiref (Psi_loc ! (idx + 1) - Psi_loc ! idx)) = 0"
    and "lr + lf \<noteq> 0"
  shows "\<exists>L. controller_body (length X_loc) X_loc Y_loc Psi_loc X_est Y_est Psi_est v lr lf
              lambda k1 k2 e1_max Ad_t Bd_t C_t D_t 0 = Inr L \<and>
           e1 L = 0 \<and> e2 L = 0 \<and> dpsiref L = 0 \<and> delta_ref L = 0 \<and> roll_ref L = Some 0"
proof -
  have se: "steer_error k1 k2 e1_max 0 0 = 0"
    by (simp add: steer_error_def sign_def)
  have cl: "limit_delta_ref 0 = 0"
    using limit_delta_ref_cases [of 0] by simp
  have rt: "roll_transform 0 lambda v lr lf = Some 0"
    using assms(7) by (simp add: roll_transform_def)
  have d: "sample_dpsiref X_loc Y_loc v idx
           (limit_D_psiref (Psi_loc ! Suc idx - Psi_loc ! idx)) = 0"
    using assms(6) by simp
  show ?thesis
    unfolding controller_body_eval [OF assms(1,2,3)] Let_def
    by (simp add: assms(4,5) d se cl rt)
qed

theorem roll_ref_zero_on_path_witness:
  "closestpoint_search (length [0, 1, 2, 3, 4 :: real]) [0, 1, 2, 3, 4] [0, 0, 0, 0, 0]
      0 0 1 = Inr 1 \<and>
   1 + 1 < length [0, 0, 0, 0, 0 :: real] \<and>
   select_heading_idx [0, 1, 2, 3, 4] [0, 0, 0, 0, 0] [0, 0, 0, 0, 0] 0 0 1 = Inr 1 \<and>
   lateral_error [0, 1, 2, 3, 4] [0, 0, 0, 0, 0] [0, 0, 0, 0, 0] 0 0 1 1 = 0 \<and>
   heading_error [0, 0, 0, 0, 0] 0 1 = 0 \<and>
   sample_dpsiref [0, 1, 2, 3, 4] [0, 0, 0, 0, 0] 1 1
     (limit_D_psiref ([0, 0, 0, 0, 0] ! (1 + 1) - [0, 0, 0, 0, 0] ! 1)) = 0 \<and>
   (1 / 2 + 1 / 2 :: real) \<noteq> 0 \<and>
   (\<exists>L. controller_body 5 [0, 1, 2, 3, 4] [0, 0, 0, 0, 0] [0, 0, 0, 0, 0] 0 0 0
          1 (1 / 2) (1 / 2) (pi / 6) 1 1 1 0 0 0 1 0 = Inr L \<and>
        roll_ref L = Some 0)"
proof -
  have len: "length [0, 1, 2, 3, 4 :: real] = 5" by simp
  have s: "closestpoint_search (length [0, 1, 2, 3, 4 :: real]) [0, 1, 2, 3, 4] [0, 0, 0, 0, 0]
      0 0 1 = Inr 1"
    unfolding len by (rule search_axis_0)
  have p: "1 + 1 < length [0, 0, 0, 0, 0 :: real]" by simp
  have h: "select_heading_idx [0, 1, 2, 3, 4] [0, 0, 0, 0, 0] [0, 0, 0, 0, 0] 0 0 1 = Inr 1"
    by (rule heading_axis_0)
  have a: "lateral_error [0, 1, 2, 3, 4] [0, 0, 0, 0, 0] [0, 0, 0, 0, 0] 0 0 1 1 = 0"
    by (simp add: lateral_error_def Let_def)
  have b: "heading_error [0, 0, 0, 0, 0] 0 1 = 0"
    by (simp add: heading_error_def Let_def wrap_angle_zero)
  have u: "sample_dpsiref [0, 1, 2, 3, 4] [0, 0, 0, 0, 0] 1 1
     (limit_D_psiref ([0, 0, 0, 0, 0] ! (1 + 1) - [0, 0, 0, 0, 0] ! 1)) = 0"
    by (simp add: sample_dpsiref_def Let_def limit_D_psiref_zero)
  have w: "(1 / 2 + 1 / 2 :: real) \<noteq> 0" by simp
  have "\<exists>L. controller_body (length [0, 1, 2, 3, 4 :: real]) [0, 1, 2, 3, 4] [0, 0, 0, 0, 0]
          [0, 0, 0, 0, 0] 0 0 0 1 (1 / 2) (1 / 2) (pi / 6) 1 1 1 0 0 0 1 0 = Inr L \<and>
           e1 L = 0 \<and> e2 L = 0 \<and> dpsiref L = 0 \<and> delta_ref L = 0 \<and> roll_ref L = Some 0"
    by (rule roll_ref_zero_on_path [OF s p h a b u w])
  then have "\<exists>L. controller_body 5 [0, 1, 2, 3, 4] [0, 0, 0, 0, 0] [0, 0, 0, 0, 0] 0 0 0
          1 (1 / 2) (1 / 2) (pi / 6) 1 1 1 0 0 0 1 0 = Inr L \<and> roll_ref L = Some 0"
    unfolding len by blast
  then show ?thesis using s p h a b u w by blast
qed

text \<open>
  Claim C10 as stated fails when \<open>lr + lf = 0\<close>. On the straight window with the vehicle
  on the path, heading 0, speed 1, zero filter state and \<open>lr = lf = 0\<close>, both errors and
  the heading rate are zero, the quotient \<^verbatim>\<open>pow(v,2.0)/(lr+lf)\<close> is infinite, its product
  with \<^verbatim>\<open>tan(0)\<close> is NaN, and the roll reference is NaN, not 0.
\<close>

theorem roll_ref_zero_wheelbase_counterexample:
  "controller_body 5 [0, 1, 2, 3, 4] [0, 0, 0, 0, 0] [0, 0, 0, 0, 0] 0 0 0
     1 0 0 (pi / 6) 1 1 1 0 0 0 1 0 =
   Inr \<lparr>closestpoint_idx = 1, closestpoint_heading_idx = 1, D_psiref = 0, e1 = 0, e2 = 0,
        dpsiref = 0, closestpoint_idx_out = 0, delta_ref_error = 0, delta_ref_psi = 0,
        x_static = 0, delta_ref_sum = 0, delta_ref = 0, roll_ref = None\<rparr>"
proof -
  have p: "1 + 1 < length [0, 0, 0, 0, 0 :: real]" by simp
  have cl: "limit_delta_ref 0 = 0"
    using limit_delta_ref_cases [of 0] by simp
  show ?thesis
    unfolding controller_body_eval [OF search_axis_0 p heading_axis_0] Let_def
    by (simp add: lateral_error_def heading_error_def sample_dpsiref_def steer_error_def
        sign_def min_d_def roll_transform_def Let_def limit_D_psiref_zero wrap_angle_zero cl)
qed

subsection \<open>Heading index\<close>

text \<open>
  Claim C6, as the code has it: in every call whose search stays inside the arrays the
  heading index is the search index plus one exactly when the absolute value of the
  projected distance is at least the segment length, and the search index otherwise.
  \<open>alpha_star\<close> is the arc tangent of the quotient, which is \<open>pi / 2\<close> or \<open>- pi / 2\<close> by the
  sign of the dividend when the divisor is zero; when both are zero (the vehicle is on
  the previous waypoint) the projected distance is NaN, the comparison is false and the
  heading index is the search index.
\<close>

theorem heading_idx_by_absolute_projection:
  assumes "closestpoint_search (length X_loc) X_loc Y_loc X_est Y_est 1 = Inr idx"
    and "idx + 1 < length Psi_loc"
  shows "\<exists>L. controller_body (length X_loc) X_loc Y_loc Psi_loc X_est Y_est Psi_est v lr lf
              lambda k1 k2 e1_max Ad_t Bd_t C_t D_t x = Inr L \<and>
           closestpoint_idx L = idx \<and>
           closestpoint_heading_idx L =
             (let dx_previous = X_loc ! (idx - 1) - X_est;
                  dy_previous = Y_loc ! (idx - 1) - Y_est;
                  dis_true_previous = sqrt (dx_previous\<^sup>2 + dy_previous\<^sup>2);
                  compared_dist =
                    sqrt ((X_loc ! idx - X_loc ! (idx - 1))\<^sup>2
                          + (Y_loc ! idx - Y_loc ! (idx - 1))\<^sup>2)
              in if dx_previous = 0 \<and> dy_previous = 0 then idx
                 else
                   let alpha_star =
                         (if dx_previous \<noteq> 0 then arctan (dy_previous / dx_previous)
                          else sgn dy_previous * (pi / 2))
                   in if \<bar>dis_true_previous * cos (alpha_star - Psi_loc ! idx)\<bar>
                           \<ge> compared_dist
                      then idx + 1 else idx)"
proof -
  from controller_body_exists [OF assms, where Psi_est = Psi_est and v = v and lr = lr
      and lf = lf and lambda = lambda and ?k1.0 = k1 and ?k2.0 = k2 and e1_max = e1_max
      and Ad_t = Ad_t and Bd_t = Bd_t and C_t = C_t and D_t = D_t and x = x]
  obtain L h where L: "controller_body (length X_loc) X_loc Y_loc Psi_loc X_est Y_est Psi_est
        v lr lf lambda k1 k2 e1_max Ad_t Bd_t C_t D_t x = Inr L"
      "select_heading_idx X_loc Y_loc Psi_loc X_est Y_est idx = Inr h"
      "closestpoint_idx L = idx" "closestpoint_heading_idx L = h"
    by blast
  have r: "1 \<le> idx \<and> idx < length X_loc \<and> idx < length Y_loc \<and> idx < length Psi_loc"
    using closestpoint_search_Inr_bounds [OF assms(1)] assms(2) by simp
  have "h = (let dx_previous = X_loc ! (idx - 1) - X_est;
                  dy_previous = Y_loc ! (idx - 1) - Y_est;
                  dis_true_previous = sqrt (dx_previous\<^sup>2 + dy_previous\<^sup>2);
                  compared_dist =
                    sqrt ((X_loc ! idx - X_loc ! (idx - 1))\<^sup>2
                          + (Y_loc ! idx - Y_loc ! (idx - 1))\<^sup>2)
              in if dx_previous = 0 \<and> dy_previous = 0 then idx
                 else
                   let alpha_star =
                         (if dx_previous \<noteq> 0 then arctan (dy_previous / dx_previous)
                          else sgn dy_previous * (pi / 2))
                   in if \<bar>dis_true_previous * cos (alpha_star - Psi_loc ! idx)\<bar>
                           \<ge> compared_dist
                      then idx + 1 else idx)"
    using L(2) r unfolding select_heading_idx_def atan_quotient_def Let_def
    by (auto simp: sgn_real_def split: if_splits)
  then show ?thesis using L by (intro exI [of _ L]) simp
qed

theorem heading_idx_by_absolute_projection_witness:
  "closestpoint_search (length [0, 1, 2, 3, 4 :: real]) [0, 1, 2, 3, 4] [0, 0, 0, 0, 0]
      (5 / 4) 0 1 = Inr 1 \<and>
   1 + 1 < length [0, 0, 0, 0, 0 :: real] \<and>
   (\<exists>L. controller_body 5 [0, 1, 2, 3, 4] [0, 0, 0, 0, 0] [0, 0, 0, 0, 0] (5 / 4) 0 0
          2 (1 / 2) (1 / 2) (pi / 2) 1 1 1 (1 / 2) 1 1 (1 / 4) 0 = Inr L \<and>
        closestpoint_idx L = 1 \<and> closestpoint_heading_idx L = 1 + 1)"
proof -
  have len: "length [0, 1, 2, 3, 4 :: real] = 5" by simp
  have s: "closestpoint_search (length [0, 1, 2, 3, 4 :: real]) [0, 1, 2, 3, 4] [0, 0, 0, 0, 0]
      (5 / 4) 0 1 = Inr 1"
    unfolding len by (rule search_axis_1)
  have p: "1 + 1 < length [0, 0, 0, 0, 0 :: real]" by simp
  from heading_idx_by_absolute_projection [OF s p, where Psi_est = 0 and v = 2
      and lr = "1 / 2" and lf = "1 / 2" and lambda = "pi / 2" and ?k1.0 = 1 and ?k2.0 = 1
      and e1_max = 1 and Ad_t = "1 / 2" and Bd_t = 1 and C_t = 1 and D_t = "1 / 4" and x = 0]
  have "\<exists>L. controller_body 5 [0, 1, 2, 3, 4] [0, 0, 0, 0, 0] [0, 0, 0, 0, 0] (5 / 4) 0 0
          2 (1 / 2) (1 / 2) (pi / 2) 1 1 1 (1 / 2) 1 1 (1 / 4) 0 = Inr L \<and>
        closestpoint_idx L = 1 \<and> closestpoint_heading_idx L = 1 + 1"
    unfolding len by (simp add: Let_def power2_eq_square sqrt_25_16)
  then show ?thesis using s p by blast
qed

text \<open>
  Claim C6 as stated compares the signed projection. On a path that runs towards
  negative x (waypoints at x = 4, 3, 2, 1, 0 with heading \<open>pi\<close>) and the vehicle at the
  second waypoint, the signed projection is \<open>- 1\<close>, below the segment length 1, while the
  code compares the absolute value 1 and selects the next heading.
\<close>

theorem heading_idx_westward_counterexample:
  "closestpoint_search 5 [4, 3, 2, 1, 0] [0, 0, 0, 0, 0] 3 0 1 = Inr 1 \<and>
   select_heading_idx [4, 3, 2, 1, 0] [0, 0, 0, 0, 0] [pi, pi, pi, pi, pi] 3 0 1 = Inr 2 \<and>
   heading_idx_claimed [4, 3, 2, 1, 0] [0, 0, 0, 0, 0] [pi, pi, pi, pi, pi] 3 0 1 = 1 \<and>
   select_heading_idx [4, 3, 2, 1, 0] [0, 0, 0, 0, 0] [pi, pi, pi, pi, pi] 3 0 1
     \<noteq> Inr (heading_idx_claimed [4, 3, 2, 1, 0] [0, 0, 0, 0, 0] [pi, pi, pi, pi, pi] 3 0 1)"
proof -
  have s: "closestpoint_search 5 [4, 3, 2, 1, 0] [0, 0, 0, 0, 0] 3 0 1 = Inr 1"
    by (subst closestpoint_search.simps) (simp add: power2_eq_square)
  have h: "select_heading_idx [4, 3, 2, 1, 0] [0, 0, 0, 0, 0] [pi, pi, pi, pi, pi] 3 0 1 = Inr 2"
    by (simp add: select_heading_idx_def atan_quotient_def Let_def)
  have c: "heading_idx_claimed [4, 3, 2, 1, 0] [0, 0, 0, 0, 0] [pi, pi, pi, pi, pi] 3 0 1 = 1"
    by (simp add: heading_idx_claimed_def Let_def)
  show ?thesis unfolding s h c by simp
qed

subsection \<open>The window the controller works on\<close>

lemma unpack_loop_Inr:
  "unpack_loop n traj_loc i (X_loc, Y_loc, Psi_loc) = Inr (X', Y', Psi') \<Longrightarrow> i \<le> n \<Longrightarrow>
     X' = X_loc @ map (\<lambda>j. traj_loc ! j) [i..<n] \<and>
     Y' = Y_loc @ map (\<lambda>j. traj_loc ! (j + n)) [i..<n] \<and>
     Psi' = Psi_loc @ map (\<lambda>j. traj_loc ! (j + 2 * n)) [i..<n]"
proof (induction n traj_loc i "(X_loc, Y_loc, Psi_loc)" arbitrary: X_loc Y_loc Psi_loc
    rule: unpack_loop.induct)
  case (1 n traj_loc i X_loc Y_loc Psi_loc)
  show ?case
  proof (cases "i < n")
    case True
    show ?thesis
    proof (cases "i + 2 * n < length traj_loc")
      case inr: True
      have "unpack_loop n traj_loc (i + 1)
              (X_loc @ [traj_loc ! i], Y_loc @ [traj_loc ! (i + n)],
               Psi_loc @ [traj_loc ! (i + 2 * n)]) = Inr (X', Y', Psi')"
        using "1.prems"(1) True inr by (subst (asm) unpack_loop.simps) simp
      moreover have "i + 1 \<le> n" using True by simp
      ultimately show ?thesis
        using "1.hyps" [OF True inr] True by (simp add: upt_conv_Cons)
    next
      case False
      then show ?thesis
        using "1.prems"(1) True by (subst (asm) unpack_loop.simps) simp
    qed
  next
    case False
    then have "i = n" using "1.prems"(2) by simp
    then show ?thesis
      using "1.prems"(1) by (subst (asm) unpack_loop.simps) simp
  qed
qed

lemma unpack_loop_Inl:
  "unpack_loop n traj_loc i (X_loc, Y_loc, Psi_loc) = Inl err \<Longrightarrow> err = OutOfBounds"
proof (induction n traj_loc i "(X_loc, Y_loc, Psi_loc)" arbitrary: X_loc Y_loc Psi_loc
    rule: unpack_loop.induct)
  case (1 n traj_loc i X_loc Y_loc Psi_loc)
  show ?case
  proof (cases "i < n \<and> i + 2 * n < length traj_loc")
    case True
    then have "unpack_loop n traj_loc (i + 1)
              (X_loc @ [traj_loc ! i], Y_loc @ [traj_loc ! (i + n)],
               Psi_loc @ [traj_loc ! (i + 2 * n)]) = Inl err"
      using "1.prems" by (subst (asm) unpack_loop.simps) simp
    with "1.hyps" True show ?thesis by blast
  next
    case False
    then show ?thesis
      using "1.prems" by (subst (asm) unpack_loop.simps) (auto split: if_splits)
  qed
qed

text \<open>
  Claim C2: the number of waypoints the controller uses is the pointer size divided by
  3, whatever buffer the caller passes. The three local arrays have that length and
  hold the first \<open>3 * (sizeof_ptr div 3)\<close> elements of the buffer, and the rest of the
  function runs on them. On an LP64 target the length is 2, and for every pointer size
  up to 8 bytes it is below the 4 waypoints the documented window needs.
\<close>

theorem window_length_is_pointer_size_over_three:
  assumes "unpack_traj (size_traj_loc sizeof_ptr) traj_loc = Inr (X_loc, Y_loc, Psi_loc)"
  shows "length X_loc = sizeof_ptr div 3 \<and> length Y_loc = sizeof_ptr div 3 \<and>
         length Psi_loc = sizeof_ptr div 3 \<and>
         X_loc = map (\<lambda>j. traj_loc ! j) [0..<sizeof_ptr div 3] \<and>
         Y_loc = map (\<lambda>j. traj_loc ! (j + sizeof_ptr div 3)) [0..<sizeof_ptr div 3] \<and>
         Psi_loc = map (\<lambda>j. traj_loc ! (j + 2 * (sizeof_ptr div 3))) [0..<sizeof_ptr div 3] \<and>
         (sizeof_ptr = 8 \<longrightarrow> length X_loc = 2) \<and>
         (sizeof_ptr \<le> 8 \<longrightarrow> length X_loc < 4) \<and>
         (3 \<le> length bike_params \<and> 3 \<le> length traj_params \<longrightarrow>
            trajectory_controller sizeof_ptr traj_loc X_est Y_est Psi_est v bike_params
                traj_params Ad_t Bd_t C_t D_t x =
              controller_body (sizeof_ptr div 3) X_loc Y_loc Psi_loc X_est Y_est Psi_est v
                (bike_params ! 0) (bike_params ! 1) (bike_params ! 2)
                (traj_params ! 0) (traj_params ! 1) (traj_params ! 2) Ad_t Bd_t C_t D_t x)"
proof -
  define m where "m = sizeof_ptr div 3"
  have u: "unpack_loop m traj_loc 0 ([], [], []) = Inr (X_loc, Y_loc, Psi_loc)"
    using assms unfolding unpack_traj_def size_traj_loc_def m_def .
  from unpack_loop_Inr [OF u] have arrays:
    "X_loc = map (\<lambda>j. traj_loc ! j) [0..<m]"
    "Y_loc = map (\<lambda>j. traj_loc ! (j + m)) [0..<m]"
    "Psi_loc = map (\<lambda>j. traj_loc ! (j + 2 * m)) [0..<m]"
    by simp_all
  then have len: "length X_loc = m" "length Y_loc = m" "length Psi_loc = m"
    by simp_all
  have small: "sizeof_ptr \<le> 8 \<Longrightarrow> m < 4" "sizeof_ptr = 8 \<Longrightarrow> m = 2"
    unfolding m_def by simp_all
  have run: "trajectory_controller sizeof_ptr traj_loc X_est Y_est Psi_est v bike_params
                traj_params Ad_t Bd_t C_t D_t x =
              controller_body m X_loc Y_loc Psi_loc X_est Y_est Psi_est v
                (bike_params ! 0) (bike_params ! 1) (bike_params ! 2)
                (traj_params ! 0) (traj_params ! 1) (traj_params ! 2) Ad_t Bd_t C_t D_t x"
    if "3 \<le> length bike_params \<and> 3 \<le> length traj_params"
    using that assms unfolding trajectory_controller_def Let_def m_def size_traj_loc_def
    by (simp add: not_less)
  show ?thesis
    unfolding m_def [symmetric]
  proof (intro conjI impI)
    show "length X_loc = m" "length Y_loc = m" "length Psi_loc = m"
      by (rule len)+
    show "X_loc = map (\<lambda>j. traj_loc ! j) [0..<m]"
      "Y_loc = map (\<lambda>j. traj_loc ! (j + m)) [0..<m]"
      "Psi_loc = map (\<lambda>j. traj_loc ! (j + 2 * m)) [0..<m]"
      by (rule arrays)+
    show "length X_loc = 2" if "sizeof_ptr = 8"
      using small(2) [OF that] len(1) by simp
    show "length X_loc < 4" if "sizeof_ptr \<le> 8"
      using small(1) [OF that] len(1) by simp
    show "trajectory_controller sizeof_ptr traj_loc X_est Y_est Psi_est v bike_params
                traj_params Ad_t Bd_t C_t D_t x =
              controller_body m X_loc Y_loc Psi_loc X_est Y_est Psi_est v
                (bike_params ! 0) (bike_params ! 1) (bike_params ! 2)
                (traj_params ! 0) (traj_params ! 1) (traj_params ! 2) Ad_t Bd_t C_t D_t x"
      if "3 \<le> length bike_params \<and> 3 \<le> length traj_params"
      using that by (rule run)
  qed
qed

theorem window_length_is_pointer_size_over_three_witness:
  "unpack_traj (size_traj_loc 8) [0, 1, 2, 3, 4, 10, 11, 12, 13, 14, 20, 21, 22, 23, 24]
     = Inr ([0, 1], [2, 3], [4, 10]) \<and>
   (8::nat) = 8 \<and> (8::nat) \<le> 8 \<and> length [0, 1 :: real] = 2 \<and> length [0, 1 :: real] < 4"
proof -
  have n: "Suc (Suc 0) = 2" by simp
  have "unpack_loop 2 [0, 1, 2, 3, 4, 10, 11, 12, 13, 14, 20, 21, 22, 23, 24] 0 ([], [], [])
      = unpack_loop 2 [0, 1, 2, 3, 4, 10, 11, 12, 13, 14, 20, 21, 22, 23, 24] 1 ([0], [2], [4])"
    by (subst unpack_loop.simps) simp
  also have "\<dots>
      = unpack_loop 2 [0, 1, 2, 3, 4, 10, 11, 12, 13, 14, 20, 21, 22, 23, 24] 2
          ([0, 1], [2, 3], [4, 10])"
    by (subst unpack_loop.simps) (simp add: n)
  also have "\<dots> = Inr ([0, 1], [2, 3], [4, 10])"
    by (subst unpack_loop.simps) simp
  finally have u: "unpack_traj (size_traj_loc 8)
      [0, 1, 2, 3, 4, 10, 11, 12, 13, 14, 20, 21, 22, 23, 24] = Inr ([0, 1], [2, 3], [4, 10])"
    by (simp add: unpack_traj_def size_traj_loc_def)
  show ?thesis
    using window_length_is_pointer_size_over_three [OF u] u by simp
qed

text \<open>
  With a window of at most two elements the first evaluation of the search's loop
  condition already reads element 2: on every target whose pointers have at most 8
  bytes, every call reads past its local arrays (or past the caller's buffer).
\<close>

lemma trajectory_controller_small_pointer:
  assumes "sizeof_ptr \<le> 8"
  shows "trajectory_controller sizeof_ptr traj_loc X_est Y_est Psi_est v bike_params
           traj_params Ad_t Bd_t C_t D_t x = Inl OutOfBounds"
proof (cases "length bike_params < 3 \<or> length traj_params < 3")
  case True
  then show ?thesis by (simp add: trajectory_controller_def)
next
  case False
  define m where "m = sizeof_ptr div 3"
  have m: "m \<le> 2" using assms unfolding m_def by simp
  show ?thesis
  proof (cases "unpack_loop m traj_loc 0 ([], [], [])")
    case (Inl err)
    then have "err = OutOfBounds" by (rule unpack_loop_Inl)
    then show ?thesis
      using False Inl
      unfolding trajectory_controller_def Let_def unpack_traj_def size_traj_loc_def m_def
      by simp
  next
    case (Inr arrays)
    obtain X_loc Y_loc Psi_loc where a: "arrays = (X_loc, Y_loc, Psi_loc)"
      by (cases arrays) auto
    from unpack_loop_Inr [OF Inr [unfolded a]] have "length X_loc = m" by simp
    then have "closestpoint_search m X_loc Y_loc X_est Y_est 1 = Inl OutOfBounds"
      using m by (subst closestpoint_search.simps) simp
    then have "controller_body m X_loc Y_loc Psi_loc X_est Y_est Psi_est v
                (bike_params ! 0) (bike_params ! 1) (bike_params ! 2)
                (traj_params ! 0) (traj_params ! 1) (traj_params ! 2) Ad_t Bd_t C_t D_t x
               = Inl OutOfBounds"
      by (rule controller_body_fails(1))
    then show ?thesis
      using False Inr a
      unfolding trajectory_controller_def Let_def unpack_traj_def size_traj_loc_def m_def
      by simp
  qed
qed

subsection \<open>Closest-point search\<close>

text \<open>
  Claim C1 does not hold of the code. With a window of four waypoints on the x-axis
  and the vehicle beyond the last one, the search advances to index 3 and its loop
  condition then reads element 4 of the four-element arrays, before the bound
  \<^verbatim>\<open>closestpoint_idx <= size_traj_loc-1\<close> is tested. And on a target with 8-byte
  pointers the window has two elements, so a call with five waypoints on the x-axis,
  the vehicle at \<open>(1 / 2, 0)\<close> with heading 0 and speed 1, reads past its arrays in the
  first evaluation of the loop condition.
\<close>

theorem closestpoint_search_reads_past_window:
  "closestpoint_search 4 [0, 1, 2, 3] [0, 0, 0, 0] 10 0 1 = Inl OutOfBounds \<and>
   trajectory_controller 8 [0, 1, 2, 3, 4, 0, 0, 0, 0, 0, 0, 0, 0, 0, 0] (1 / 2) 0 0 1
     [1 / 2, 1 / 2, 0] [1, 1, 1] 0 0 0 1 x_init = Inl OutOfBounds"
proof -
  have n: "Suc (Suc 0) = 2" "Suc 2 = 3" by simp_all
  have "closestpoint_search 4 [0, 1, 2, 3] [0, 0, 0, 0] 10 0 1
      = closestpoint_search 4 [0, 1, 2, 3] [0, 0, 0, 0] 10 0 2"
    by (subst closestpoint_search.simps) (simp add: power2_eq_square n)
  also have "\<dots> = closestpoint_search 4 [0, 1, 2, 3] [0, 0, 0, 0] 10 0 3"
    by (subst closestpoint_search.simps) (simp add: power2_eq_square n)
  also have "\<dots> = Inl OutOfBounds"
    by (subst closestpoint_search.simps) simp
  finally have "closestpoint_search 4 [0, 1, 2, 3] [0, 0, 0, 0] 10 0 1 = Inl OutOfBounds" .
  moreover have "trajectory_controller 8 [0, 1, 2, 3, 4, 0, 0, 0, 0, 0, 0, 0, 0, 0, 0] (1 / 2) 0 0 1
     [1 / 2, 1 / 2, 0] [1, 1, 1] 0 0 0 1 x_init = Inl OutOfBounds"
    by (rule trajectory_controller_small_pointer) simp
  ultimately show ?thesis by simp
qed

end
